theory Spec2Isabelle
  imports Complex_Main
begin

section \<open>The REST adapter for transactions\<close>

text \<open>
  A model of \<^verbatim>\<open>src/server/adapter/rest/transaction.resource.js\<close>: five Express handlers
  that delegate to \<^verbatim>\<open>transactionService\<close> and translate its deferred results into HTTP
  responses. The service and the logger are collaborators required from other modules;
  the service is a parameter of every handler here, the logger is the list of the errors
  handed to \<^verbatim>\<open>log.error\<close>.

  One request is followed from the call of its handler to the response: the promise chain
  of a handler runs as one sequence, each service promise being settled (resolved or
  rejected with an error object) when its continuation runs. \<^verbatim>\<open>res.send\<close>,
  \<^verbatim>\<open>res.status\<close> and \<^verbatim>\<open>log.error\<close> are taken not to throw.
\<close>

subsection \<open>JavaScript values\<close>

text \<open>
  The values that reach a handler from a parsed body, a parsed query string or the
  service: the primitives (\<open>JNum\<close> a finite number), arrays, plain objects as the list of
  their own properties (each name once), and \<open>JDate v\<close>, the Date that
  \<^verbatim>\<open>new Date(v)\<close> builds, which is determined by \<open>v\<close>. None of them is a function: a
  property of an object is never callable.
\<close>

datatype jsval =
    JUndefined
  | JNull
  | JBool bool
  | JNum real
  | JStr string
  | JDate jsval
  | JArr "jsval list"
  | JObj "(string \<times> jsval) list"

text \<open>The test of \<^verbatim>\<open>if (v)\<close>.\<close>

fun truthy :: "jsval \<Rightarrow> bool" where
  "truthy JUndefined = False"
| "truthy JNull = False"
| "truthy (JBool b) = b"
| "truthy (JNum x) = (x \<noteq> 0)"
| "truthy (JStr s) = (s \<noteq> [])"
| "truthy (JDate v) = True"
| "truthy (JArr xs) = True"
| "truthy (JObj props) = True"

subsection \<open>Errors\<close>

text \<open>
  What a rejected promise or a \<^verbatim>\<open>throw\<close> carries: whether it is an instance of
  \<^verbatim>\<open>errors.NotFoundError\<close> (the test of the filtered \<^verbatim>\<open>.catch\<close>), and the text its
  \<^verbatim>\<open>toString()\<close> returns.
\<close>

datatype error_kind = NotFoundError | OtherError

record js_error =
  instance_of :: error_kind
  toString :: string

definition TypeError :: "string \<Rightarrow> js_error" where
  "TypeError msg = \<lparr>instance_of = OtherError, toString = ''TypeError: '' @ msg\<rparr>"

definition quoted :: "string \<Rightarrow> string" where
  "quoted k = [CHR 0x27] @ k @ [CHR 0x27]"

text \<open>
  Reading property \<open>k\<close> of a value, \<^verbatim>\<open>v.k\<close>: a TypeError on \<^verbatim>\<open>undefined\<close> and \<^verbatim>\<open>null\<close>,
  the own property of an object (\<^verbatim>\<open>undefined\<close> when it has none), and \<^verbatim>\<open>undefined\<close> on the
  other values. The one property read this way is \<^verbatim>\<open>id\<close>, which no prototype has.
\<close>

fun get_prop :: "jsval \<Rightarrow> string \<Rightarrow> js_error + jsval" where
  "get_prop JUndefined k =
     Inl (TypeError (''Cannot read property '' @ quoted k @ '' of undefined''))"
| "get_prop JNull k =
     Inl (TypeError (''Cannot read property '' @ quoted k @ '' of null''))"
| "get_prop (JObj props) k = Inr (case map_of props k of None \<Rightarrow> JUndefined | Some v \<Rightarrow> v)"
| "get_prop v k = Inr JUndefined"

text \<open>
  Whether a value converts to a primitive, which \<^verbatim>\<open>new Date(v)\<close> asks for first. A
  primitive and a Date do. A plain object does through the \<^verbatim>\<open>toString\<close> it inherits,
  unless it has an own property of that name, which is not callable and hides the
  inherited method: the inherited \<^verbatim>\<open>valueOf\<close> returns the object itself, an own one is
  not callable either, so nothing yields a primitive. An array is joined, which converts
  each element (an \<^verbatim>\<open>undefined\<close> or \<^verbatim>\<open>null\<close> element gives the empty string).
\<close>

fun to_primitive_ok :: "jsval \<Rightarrow> bool" where
  "to_primitive_ok (JObj props) = (map_of props ''toString'' = None)"
| "to_primitive_ok (JArr xs) = list_all to_primitive_ok xs"
| "to_primitive_ok v = True"

text \<open>\<^verbatim>\<open>new Date(v)\<close>: a TypeError when \<open>v\<close> does not convert to a primitive.\<close>

definition new_Date :: "jsval \<Rightarrow> js_error + jsval" where
  "new_Date v =
     (if to_primitive_ok v then Inr (JDate v)
      else Inl (TypeError ''Cannot convert object to primitive value''))"

subsection \<open>Request and response\<close>

text \<open>
  The object in \<^verbatim>\<open>req.body\<close> is the one object a handler changes and shares with the
  service, so it lives at an address of a heap; an object there gives a value to every
  property name, \<open>JUndefined\<close> for a property it does not have.

  \<open>body\<close> is \<^verbatim>\<open>req.body\<close>: the address of the object the body parser built, or \<open>None\<close> when
  \<^verbatim>\<open>req.body\<close> is \<^verbatim>\<open>undefined\<close>. \<open>params\<close> are the route parameters, which Express gives as
  strings (\<open>None\<close>: no such parameter). \<open>query\<close> is \<^verbatim>\<open>req.query\<close>, an object.
\<close>

type_synonym addr = nat
type_synonym jsobj = "string \<Rightarrow> jsval"
type_synonym heap = "addr \<Rightarrow> jsobj"

record request =
  body :: "addr option"
  params :: "string \<Rightarrow> string option"
  query :: jsobj

text \<open>A route parameter as a value, and as the operand of a string concatenation.\<close>

fun param_value :: "string option \<Rightarrow> jsval" where
  "param_value None = JUndefined"
| "param_value (Some s) = JStr s"

fun param_text :: "string option \<Rightarrow> string" where
  "param_text None = ''undefined''"
| "param_text (Some s) = s"

text \<open>
  What was handed to \<^verbatim>\<open>res.send\<close>: a value (\<open>Body JUndefined\<close> for \<^verbatim>\<open>send()\<close> without an
  argument), or the object literal \<^verbatim>\<open>{'message': m}\<close>.
\<close>

datatype payload = Body jsval | Message string

record response =
  statusCode :: nat
  sent :: "payload list"

text \<open>The response as a handler receives it: status 200, nothing sent.\<close>

definition new_response :: response where
  "new_response = \<lparr>statusCode = 200, sent = []\<rparr>"

subsection \<open>The collaborators\<close>

text \<open>
  A service method returns a promise. Here it is the settled outcome, \<open>Inl\<close> a rejection
  and \<open>Inr\<close> the value it resolved with, together with what the method did to the heap and
  to the service's own state \<open>'s\<close>. Creating and updating are given the body object
  itself, that is its address.
\<close>

type_synonym 's promise = "heap \<times> 's \<Rightarrow> (js_error + jsval) \<times> heap \<times> 's"

record 's transactionService =
  svc_createTransaction :: "addr \<Rightarrow> 's promise"
  svc_updateTransaction :: "addr \<Rightarrow> 's promise"
  svc_getTransaction :: "jsval \<Rightarrow> 's promise"
  svc_getTransactions :: "jsval \<Rightarrow> 's promise"
  svc_getTransactionsByCategory :: "jsval \<Rightarrow> jsval \<Rightarrow> 's promise"
  svc_deleteTransaction :: "jsval \<Rightarrow> 's promise"

text \<open>The calls made on the service, with their arguments.\<close>

datatype svc_call =
    CreateTransaction addr
  | UpdateTransaction addr
  | GetTransaction jsval
  | GetTransactions jsval
  | GetTransactionsByCategory jsval jsval
  | DeleteTransaction jsval

text \<open>
  The state a handler runs in: the heap, the service's state, the calls made on the
  service so far (each with the heap at the moment of the call and the outcome of its
  promise), the errors given to \<^verbatim>\<open>log.error\<close>, and the response.
\<close>

type_synonym call_record = "svc_call \<times> heap \<times> (js_error + jsval)"

record 's state =
  heap :: heap
  svc_state :: 's
  calls :: "call_record list"
  logged :: "js_error list"
  res :: response

definition incoming :: "heap \<Rightarrow> 's \<Rightarrow> 's state" where
  "incoming h s = \<lparr>heap = h, svc_state = s, calls = [], logged = [], res = new_response\<rparr>"

definition call :: "svc_call \<Rightarrow> 's promise \<Rightarrow> 's state \<Rightarrow> (js_error + jsval) \<times> 's state" where
  "call c p st =
     (case p (heap st, svc_state st) of
        (r, h, s) \<Rightarrow>
          (r, st\<lparr>heap := h, svc_state := s, calls := calls st @ [(c, heap st, r)]\<rparr>))"

definition log_error :: "js_error \<Rightarrow> 's state \<Rightarrow> 's state" where
  "log_error e st = st\<lparr>logged := logged st @ [e]\<rparr>"

definition res_status :: "nat \<Rightarrow> 's state \<Rightarrow> 's state" where
  "res_status n st = st\<lparr>res := (res st)\<lparr>statusCode := n\<rparr>\<rparr>"

definition res_send :: "payload \<Rightarrow> 's state \<Rightarrow> 's state" where
  "res_send p st = st\<lparr>res := (res st)\<lparr>sent := sent (res st) @ [p]\<rparr>\<rparr>"

text \<open>
  The last \<^verbatim>\<open>.catch\<close> of every chain:
  \<^verbatim>\<open>function(error) { log.error(error); res.status(500).send({'message': error.toString()}); }\<close>
\<close>

definition catch_error :: "js_error \<Rightarrow> 's state \<Rightarrow> 's state" where
  "catch_error error st = res_send (Message (toString error)) (res_status 500 (log_error error st))"

subsection \<open>The handlers\<close>

text \<open>
  A handler either returns, leaving the state it reached (\<open>Inr\<close>), or throws out of its
  own body, to Express (\<open>Inl\<close>): what is thrown before the promise chain is built is not
  caught by the chain.
\<close>

type_synonym 's handler = "request \<Rightarrow> 's state \<Rightarrow> js_error + 's state"

text \<open>The assignment \<^verbatim>\<open>transactionData.txn_date = d\<close> on the object at \<open>a\<close>.\<close>

definition set_txn_date :: "addr \<Rightarrow> jsval \<Rightarrow> heap \<Rightarrow> heap" where
  "set_txn_date a d h = h(a := (h a)(''txn_date'' := d))"

text \<open>
  \<^verbatim>\<open>transactionData.txn_date = new Date(transactionData.txn_date)\<close> on the object at \<open>a\<close>:
  when \<^verbatim>\<open>new Date\<close> throws, nothing is assigned.
\<close>

definition coerce_txn_date :: "addr \<Rightarrow> heap \<Rightarrow> js_error + heap" where
  "coerce_txn_date a h =
     (case new_Date (h a ''txn_date'') of
        Inl error \<Rightarrow> Inl error
      | Inr d \<Rightarrow> Inr (set_txn_date a d h))"

text \<open>
  \<^verbatim>\<open>createTransaction(req, res)\<close>. With \<^verbatim>\<open>req.body\<close> undefined the read of
  \<^verbatim>\<open>transactionData.txn_date\<close> throws, and \<^verbatim>\<open>new Date\<close> may throw: both before the chain
  is built, so out of the handler. In the chain, a rejection or a throw in a \<^verbatim>\<open>then\<close>
  callback goes to the final catch.
\<close>

definition createTransaction :: "'s transactionService \<Rightarrow> 's handler" where
  "createTransaction svc req st =
     (case body req of
        None \<Rightarrow> Inl (TypeError (''Cannot read property '' @ quoted ''txn_date'' @ '' of undefined''))
      | Some transactionData \<Rightarrow>
          (case coerce_txn_date transactionData (heap st) of
             Inl error \<Rightarrow> Inl error
           | Inr h1 \<Rightarrow>
               Inr
                 (case call (CreateTransaction transactionData)
                            (svc_createTransaction svc transactionData) (st\<lparr>heap := h1\<rparr>) of
                    (Inl error, st2) \<Rightarrow> catch_error error st2
                  | (Inr transaction, st2) \<Rightarrow>
                      (case get_prop transaction ''id'' of
                         Inl error \<Rightarrow> catch_error error st2
                       | Inr id' \<Rightarrow>
                           (case call (GetTransaction id') (svc_getTransaction svc id') st2 of
                              (Inl error, st3) \<Rightarrow> catch_error error st3
                            | (Inr transaction', st3) \<Rightarrow> res_send (Body transaction') st3)))))"

text \<open>\<^verbatim>\<open>updateTransaction(req, res)\<close>: as above, on \<^verbatim>\<open>transactionService.updateTransaction\<close>.\<close>

definition updateTransaction :: "'s transactionService \<Rightarrow> 's handler" where
  "updateTransaction svc req st =
     (case body req of
        None \<Rightarrow> Inl (TypeError (''Cannot read property '' @ quoted ''txn_date'' @ '' of undefined''))
      | Some transactionData \<Rightarrow>
          (case coerce_txn_date transactionData (heap st) of
             Inl error \<Rightarrow> Inl error
           | Inr h1 \<Rightarrow>
               Inr
                 (case call (UpdateTransaction transactionData)
                            (svc_updateTransaction svc transactionData) (st\<lparr>heap := h1\<rparr>) of
                    (Inl error, st2) \<Rightarrow> catch_error error st2
                  | (Inr transaction, st2) \<Rightarrow>
                      (case get_prop transaction ''id'' of
                         Inl error \<Rightarrow> catch_error error st2
                       | Inr id' \<Rightarrow>
                           (case call (GetTransaction id') (svc_getTransaction svc id') st2 of
                              (Inl error, st3) \<Rightarrow> catch_error error st3
                            | (Inr transaction', st3) \<Rightarrow> res_send (Body transaction') st3)))))"

text \<open>
  \<^verbatim>\<open>getTransaction(req, res)\<close>: the filtered catch takes the instances of
  \<^verbatim>\<open>errors.NotFoundError\<close>, the final catch the other rejections.
\<close>

definition getTransaction :: "'s transactionService \<Rightarrow> 's handler" where
  "getTransaction svc req st =
     (let id' = params req ''id'' in
      Inr
        (case call (GetTransaction (param_value id'))
                   (svc_getTransaction svc (param_value id')) st of
           (Inr transaction, st1) \<Rightarrow> res_send (Body transaction) st1
         | (Inl error, st1) \<Rightarrow>
             if instance_of error = NotFoundError
             then res_send (Message (''Transaction '' @ param_text id' @ '' does not exist''))
                    (res_status 404 st1)
             else catch_error error st1))"

text \<open>
  The two conversions of \<^verbatim>\<open>getTransactions\<close>:
  \<^verbatim>\<open>if (startDate) { startDate = new Date(startDate); }\<close>, and the same for \<^verbatim>\<open>endDate\<close>.
\<close>

definition coerce_if_truthy :: "jsval \<Rightarrow> js_error + jsval" where
  "coerce_if_truthy v = (if truthy v then new_Date v else Inr v)"

text \<open>
  \<^verbatim>\<open>getTransactions(req, res)\<close>: the conversions come first, \<^verbatim>\<open>startDate\<close> before
  \<^verbatim>\<open>endDate\<close>, and a throw of theirs leaves the handler; then
  \<^verbatim>\<open>typeof groupByCategory !== 'undefined'\<close> chooses the service method.
\<close>

definition getTransactions :: "'s transactionService \<Rightarrow> 's handler" where
  "getTransactions svc req st =
     (let accountId = query req ''account'';
          groupByCategory = query req ''groupByCategory''
      in case coerce_if_truthy (query req ''startDate'') of
           Inl error \<Rightarrow> Inl error
         | Inr startDate \<Rightarrow>
             (case coerce_if_truthy (query req ''endDate'') of
                Inl error \<Rightarrow> Inl error
              | Inr endDate \<Rightarrow>
                  Inr
                    (if groupByCategory \<noteq> JUndefined
                     then (case call (GetTransactionsByCategory startDate endDate)
                                     (svc_getTransactionsByCategory svc startDate endDate) st of
                             (Inr transactionsByCategory, st1) \<Rightarrow>
                               res_send (Body transactionsByCategory) st1
                           | (Inl error, st1) \<Rightarrow> catch_error error st1)
                     else (case call (GetTransactions accountId)
                                     (svc_getTransactions svc accountId) st of
                             (Inr transactions, st1) \<Rightarrow> res_send (Body transactions) st1
                           | (Inl error, st1) \<Rightarrow> catch_error error st1))))"

text \<open>\<^verbatim>\<open>deleteTransaction(req, res)\<close>: the resolved value is ignored.\<close>

definition deleteTransaction :: "'s transactionService \<Rightarrow> 's handler" where
  "deleteTransaction svc req st =
     (let id' = params req ''id'' in
      Inr
        (case call (DeleteTransaction (param_value id'))
                   (svc_deleteTransaction svc (param_value id')) st of
           (Inr _, st1) \<Rightarrow> res_send (Body JUndefined) (res_status 204 st1)
         | (Inl error, st1) \<Rightarrow> catch_error error st1))"

subsection \<open>The routes\<close>

datatype http_method = POST | PUT | GET | DELETE

type_synonym 's api = "((http_method \<times> string) \<times> 's handler) list"

text \<open>\<^verbatim>\<open>addRoutes(api)\<close> registers the five handlers, in this order.\<close>

definition addRoutes :: "'s transactionService \<Rightarrow> 's api \<Rightarrow> 's api" where
  "addRoutes svc api = api @
     [((POST, ''/transactions''), createTransaction svc),
      ((PUT, ''/transactions/:id''), updateTransaction svc),
      ((GET, ''/transactions/:id''), getTransaction svc),
      ((GET, ''/transactions''), getTransactions svc),
      ((DELETE, ''/transactions/:id''), deleteTransaction svc)]"

subsection \<open>A service and requests to run the handlers on\<close>

text \<open>
  A service over a counter: a call made while the counter is positive resolves and
  decrements it, a call made at 0 rejects with the error \<open>e\<close>. What it resolves with
  shows what it was given: creating and updating resolve with the stored row, which has
  the \<^verbatim>\<open>txn_date\<close> found in the object; a get with the row of that id joined to its
  account; the two listings with their name and their arguments.
\<close>

definition settle :: "js_error \<Rightarrow> jsval \<Rightarrow> nat promise" where
  "settle e v = (\<lambda>(h, n). if n = 0 then (Inl e, h, 0) else (Inr v, h, n - 1))"

definition stored_row :: "jsval \<Rightarrow> jsobj \<Rightarrow> jsval" where
  "stored_row i obj = JObj [(''id'', i), (''txn_date'', obj ''txn_date'')]"

definition full_row :: "jsval \<Rightarrow> jsval" where
  "full_row i = JObj [(''id'', i), (''account'', JObj [(''name'', JStr ''Cash'')])]"

definition counting_service :: "js_error \<Rightarrow> nat transactionService" where
  "counting_service e =
     \<lparr>svc_createTransaction = (\<lambda>a (h, n). settle e (stored_row (JNum 7) (h a)) (h, n)),
      svc_updateTransaction = (\<lambda>a (h, n). settle e (stored_row (h a ''id'') (h a)) (h, n)),
      svc_getTransaction = (\<lambda>i. settle e (full_row i)),
      svc_getTransactions = (\<lambda>account. settle e (JArr [JStr ''flat'', account])),
      svc_getTransactionsByCategory =
        (\<lambda>startDate endDate. settle e (JArr [JStr ''grouped'', startDate, endDate])),
      svc_deleteTransaction = (\<lambda>i. settle e (JNum 1))\<rparr>"

definition not_found :: js_error where
  "not_found = \<lparr>instance_of = NotFoundError, toString = ''NotFoundError: no such transaction''\<rparr>"

definition db_down :: js_error where
  "db_down = \<lparr>instance_of = OtherError, toString = ''Error: connection refused''\<rparr>"

definition no_props :: jsobj where
  "no_props = (\<lambda>_. JUndefined)"

definition sample_heap :: heap where
  "sample_heap =
     (\<lambda>_. no_props)
       (1 := no_props(''id'' := JNum 9, ''txn_date'' := JStr ''2014-03-01'',
                      ''amount'' := JNum 12.5))"

definition no_params :: "string \<Rightarrow> string option" where
  "no_params = (\<lambda>_. None)"

definition body_request :: request where
  "body_request = \<lparr>body = Some 1, params = no_params(''id'' \<mapsto> ''9''), query = no_props\<rparr>"

definition id_request :: request where
  "id_request = \<lparr>body = None, params = no_params(''id'' \<mapsto> ''42''), query = no_props\<rparr>"

definition account_request :: request where
  "account_request =
     \<lparr>body = None, params = no_params, query = no_props(''account'' := JStr ''3'')\<rparr>"

definition grouped_request :: request where
  "grouped_request =
     \<lparr>body = None, params = no_params,
      query = no_props(''groupByCategory'' := JStr [], ''startDate'' := JStr ''2014-01-01'',
                       ''endDate'' := JStr ''2014-12-31'')\<rparr>"

definition empty_start_request :: request where
  "empty_start_request =
     \<lparr>body = None, params = no_params,
      query = no_props(''groupByCategory'' := JStr [], ''startDate'' := JStr [],
                       ''endDate'' := JStr ''2014-12-31'')\<rparr>"

definition empty_end_request :: request where
  "empty_end_request =
     \<lparr>body = None, params = no_params,
      query = no_props(''groupByCategory'' := JStr [], ''startDate'' := JStr ''2014-01-01'',
                       ''endDate'' := JStr [])\<rparr>"

definition no_dates_request :: request where
  "no_dates_request =
     \<lparr>body = None, params = no_params, query = no_props(''groupByCategory'' := JStr [])\<rparr>"

text \<open>
  The body \<^verbatim>\<open>{"txn_date": {"toString": 1}}\<close>: its \<^verbatim>\<open>txn_date\<close> does not convert to a
  primitive.
\<close>

definition unconvertible_heap :: heap where
  "unconvertible_heap =
     (\<lambda>_. no_props)(1 := no_props(''txn_date'' := JObj [(''toString'', JNum 1)]))"

section \<open>Properties\<close>

subsection \<open>What each handler does, path by path\<close>

lemmas run_defs = incoming_def call_def catch_error_def res_send_def res_status_def
  log_error_def new_response_def Let_def

lemma createTransaction_rejected:
  assumes "body req = Some a"
    and "to_primitive_ok (h a ''txn_date'')"
    and "svc_createTransaction svc a (set_txn_date a (JDate (h a ''txn_date'')) h, s) = (Inl e, h', s')"
  shows "createTransaction svc req (incoming h s) =
    Inr \<lparr>heap = h', svc_state = s',
         calls = [(CreateTransaction a, set_txn_date a (JDate (h a ''txn_date'')) h, Inl e)],
         logged = [e],
         res = \<lparr>statusCode = 500, sent = [Message (toString e)]\<rparr>\<rparr>"
  using assms
  by (simp add: createTransaction_def coerce_txn_date_def new_Date_def set_txn_date_def run_defs)

lemma createTransaction_unreadable_id:
  assumes "body req = Some a"
    and "to_primitive_ok (h a ''txn_date'')"
    and "svc_createTransaction svc a (set_txn_date a (JDate (h a ''txn_date'')) h, s) = (Inr t, h', s')"
    and "get_prop t ''id'' = Inl e"
  shows "createTransaction svc req (incoming h s) =
    Inr \<lparr>heap = h', svc_state = s',
         calls = [(CreateTransaction a, set_txn_date a (JDate (h a ''txn_date'')) h, Inr t)],
         logged = [e],
         res = \<lparr>statusCode = 500, sent = [Message (toString e)]\<rparr>\<rparr>"
  using assms
  by (simp add: createTransaction_def coerce_txn_date_def new_Date_def set_txn_date_def run_defs)

lemma createTransaction_refetch_rejected:
  assumes "body req = Some a"
    and "to_primitive_ok (h a ''txn_date'')"
    and "svc_createTransaction svc a (set_txn_date a (JDate (h a ''txn_date'')) h, s) = (Inr t, h', s')"
    and "get_prop t ''id'' = Inr i"
    and "svc_getTransaction svc i (h', s') = (Inl e, h'', s'')"
  shows "createTransaction svc req (incoming h s) =
    Inr \<lparr>heap = h'', svc_state = s'',
         calls = [(CreateTransaction a, set_txn_date a (JDate (h a ''txn_date'')) h, Inr t),
                  (GetTransaction i, h', Inl e)],
         logged = [e],
         res = \<lparr>statusCode = 500, sent = [Message (toString e)]\<rparr>\<rparr>"
  using assms
  by (simp add: createTransaction_def coerce_txn_date_def new_Date_def set_txn_date_def run_defs)

lemma createTransaction_refetched:
  assumes "body req = Some a"
    and "to_primitive_ok (h a ''txn_date'')"
    and "svc_createTransaction svc a (set_txn_date a (JDate (h a ''txn_date'')) h, s) = (Inr t, h', s')"
    and "get_prop t ''id'' = Inr i"
    and "svc_getTransaction svc i (h', s') = (Inr full, h'', s'')"
  shows "createTransaction svc req (incoming h s) =
    Inr \<lparr>heap = h'', svc_state = s'',
         calls = [(CreateTransaction a, set_txn_date a (JDate (h a ''txn_date'')) h, Inr t),
                  (GetTransaction i, h', Inr full)],
         logged = [],
         res = \<lparr>statusCode = 200, sent = [Body full]\<rparr>\<rparr>"
  using assms
  by (simp add: createTransaction_def coerce_txn_date_def new_Date_def set_txn_date_def run_defs)

lemma updateTransaction_rejected:
  assumes "body req = Some a"
    and "to_primitive_ok (h a ''txn_date'')"
    and "svc_updateTransaction svc a (set_txn_date a (JDate (h a ''txn_date'')) h, s) = (Inl e, h', s')"
  shows "updateTransaction svc req (incoming h s) =
    Inr \<lparr>heap = h', svc_state = s',
         calls = [(UpdateTransaction a, set_txn_date a (JDate (h a ''txn_date'')) h, Inl e)],
         logged = [e],
         res = \<lparr>statusCode = 500, sent = [Message (toString e)]\<rparr>\<rparr>"
  using assms
  by (simp add: updateTransaction_def coerce_txn_date_def new_Date_def set_txn_date_def run_defs)

lemma updateTransaction_unreadable_id:
  assumes "body req = Some a"
    and "to_primitive_ok (h a ''txn_date'')"
    and "svc_updateTransaction svc a (set_txn_date a (JDate (h a ''txn_date'')) h, s) = (Inr t, h', s')"
    and "get_prop t ''id'' = Inl e"
  shows "updateTransaction svc req (incoming h s) =
    Inr \<lparr>heap = h', svc_state = s',
         calls = [(UpdateTransaction a, set_txn_date a (JDate (h a ''txn_date'')) h, Inr t)],
         logged = [e],
         res = \<lparr>statusCode = 500, sent = [Message (toString e)]\<rparr>\<rparr>"
  using assms
  by (simp add: updateTransaction_def coerce_txn_date_def new_Date_def set_txn_date_def run_defs)

lemma updateTransaction_refetch_rejected:
  assumes "body req = Some a"
    and "to_primitive_ok (h a ''txn_date'')"
    and "svc_updateTransaction svc a (set_txn_date a (JDate (h a ''txn_date'')) h, s) = (Inr t, h', s')"
    and "get_prop t ''id'' = Inr i"
    and "svc_getTransaction svc i (h', s') = (Inl e, h'', s'')"
  shows "updateTransaction svc req (incoming h s) =
    Inr \<lparr>heap = h'', svc_state = s'',
         calls = [(UpdateTransaction a, set_txn_date a (JDate (h a ''txn_date'')) h, Inr t),
                  (GetTransaction i, h', Inl e)],
         logged = [e],
         res = \<lparr>statusCode = 500, sent = [Message (toString e)]\<rparr>\<rparr>"
  using assms
  by (simp add: updateTransaction_def coerce_txn_date_def new_Date_def set_txn_date_def run_defs)

lemma updateTransaction_refetched:
  assumes "body req = Some a"
    and "to_primitive_ok (h a ''txn_date'')"
    and "svc_updateTransaction svc a (set_txn_date a (JDate (h a ''txn_date'')) h, s) = (Inr t, h', s')"
    and "get_prop t ''id'' = Inr i"
    and "svc_getTransaction svc i (h', s') = (Inr full, h'', s'')"
  shows "updateTransaction svc req (incoming h s) =
    Inr \<lparr>heap = h'', svc_state = s'',
         calls = [(UpdateTransaction a, set_txn_date a (JDate (h a ''txn_date'')) h, Inr t),
                  (GetTransaction i, h', Inr full)],
         logged = [],
         res = \<lparr>statusCode = 200, sent = [Body full]\<rparr>\<rparr>"
  using assms
  by (simp add: updateTransaction_def coerce_txn_date_def new_Date_def set_txn_date_def run_defs)

lemma getTransaction_not_found:
  assumes "svc_getTransaction svc (param_value (params req ''id'')) (h, s) = (Inl e, h', s')"
    and "instance_of e = NotFoundError"
  shows "getTransaction svc req (incoming h s) =
    Inr \<lparr>heap = h', svc_state = s',
         calls = [(GetTransaction (param_value (params req ''id'')), h, Inl e)],
         logged = [],
         res = \<lparr>statusCode = 404,
               sent = [Message (''Transaction '' @ param_text (params req ''id'')
                                @ '' does not exist'')]\<rparr>\<rparr>"
  using assms
  by (simp add: getTransaction_def coerce_txn_date_def new_Date_def set_txn_date_def run_defs)

lemma getTransaction_rejected:
  assumes "svc_getTransaction svc (param_value (params req ''id'')) (h, s) = (Inl e, h', s')"
    and "instance_of e \<noteq> NotFoundError"
  shows "getTransaction svc req (incoming h s) =
    Inr \<lparr>heap = h', svc_state = s',
         calls = [(GetTransaction (param_value (params req ''id'')), h, Inl e)],
         logged = [e],
         res = \<lparr>statusCode = 500, sent = [Message (toString e)]\<rparr>\<rparr>"
  using assms
  by (simp add: getTransaction_def coerce_txn_date_def new_Date_def set_txn_date_def run_defs)

lemma getTransaction_resolved:
  assumes "svc_getTransaction svc (param_value (params req ''id'')) (h, s) = (Inr t, h', s')"
  shows "getTransaction svc req (incoming h s) =
    Inr \<lparr>heap = h', svc_state = s',
         calls = [(GetTransaction (param_value (params req ''id'')), h, Inr t)],
         logged = [],
         res = \<lparr>statusCode = 200, sent = [Body t]\<rparr>\<rparr>"
  using assms
  by (simp add: getTransaction_def coerce_txn_date_def new_Date_def set_txn_date_def run_defs)

lemma getTransactions_grouped_rejected:
  assumes "query req ''groupByCategory'' \<noteq> JUndefined"
    and "coerce_if_truthy (query req ''startDate'') = Inr startDate"
    and "coerce_if_truthy (query req ''endDate'') = Inr endDate"
    and "svc_getTransactionsByCategory svc startDate endDate (h, s) = (Inl e, h', s')"
  shows "getTransactions svc req (incoming h s) =
    Inr \<lparr>heap = h', svc_state = s',
         calls = [(GetTransactionsByCategory startDate endDate, h, Inl e)],
         logged = [e],
         res = \<lparr>statusCode = 500, sent = [Message (toString e)]\<rparr>\<rparr>"
  using assms
  by (simp add: getTransactions_def coerce_txn_date_def new_Date_def set_txn_date_def run_defs)

lemma getTransactions_grouped_resolved:
  assumes "query req ''groupByCategory'' \<noteq> JUndefined"
    and "coerce_if_truthy (query req ''startDate'') = Inr startDate"
    and "coerce_if_truthy (query req ''endDate'') = Inr endDate"
    and "svc_getTransactionsByCategory svc startDate endDate (h, s) = (Inr v, h', s')"
  shows "getTransactions svc req (incoming h s) =
    Inr \<lparr>heap = h', svc_state = s',
         calls = [(GetTransactionsByCategory startDate endDate, h, Inr v)],
         logged = [],
         res = \<lparr>statusCode = 200, sent = [Body v]\<rparr>\<rparr>"
  using assms
  by (simp add: getTransactions_def coerce_txn_date_def new_Date_def set_txn_date_def run_defs)

lemma getTransactions_flat_rejected:
  assumes "query req ''groupByCategory'' = JUndefined"
    and "coerce_if_truthy (query req ''startDate'') = Inr startDate"
    and "coerce_if_truthy (query req ''endDate'') = Inr endDate"
    and "svc_getTransactions svc (query req ''account'') (h, s) = (Inl e, h', s')"
  shows "getTransactions svc req (incoming h s) =
    Inr \<lparr>heap = h', svc_state = s',
         calls = [(GetTransactions (query req ''account''), h, Inl e)],
         logged = [e],
         res = \<lparr>statusCode = 500, sent = [Message (toString e)]\<rparr>\<rparr>"
  using assms
  by (simp add: getTransactions_def coerce_txn_date_def new_Date_def set_txn_date_def run_defs)

lemma getTransactions_flat_resolved:
  assumes "query req ''groupByCategory'' = JUndefined"
    and "coerce_if_truthy (query req ''startDate'') = Inr startDate"
    and "coerce_if_truthy (query req ''endDate'') = Inr endDate"
    and "svc_getTransactions svc (query req ''account'') (h, s) = (Inr v, h', s')"
  shows "getTransactions svc req (incoming h s) =
    Inr \<lparr>heap = h', svc_state = s',
         calls = [(GetTransactions (query req ''account''), h, Inr v)],
         logged = [],
         res = \<lparr>statusCode = 200, sent = [Body v]\<rparr>\<rparr>"
  using assms
  by (simp add: getTransactions_def coerce_txn_date_def new_Date_def set_txn_date_def run_defs)

lemma deleteTransaction_rejected:
  assumes "svc_deleteTransaction svc (param_value (params req ''id'')) (h, s) = (Inl e, h', s')"
  shows "deleteTransaction svc req (incoming h s) =
    Inr \<lparr>heap = h', svc_state = s',
         calls = [(DeleteTransaction (param_value (params req ''id'')), h, Inl e)],
         logged = [e],
         res = \<lparr>statusCode = 500, sent = [Message (toString e)]\<rparr>\<rparr>"
  using assms
  by (simp add: deleteTransaction_def coerce_txn_date_def new_Date_def set_txn_date_def run_defs)

lemma deleteTransaction_resolved:
  assumes "svc_deleteTransaction svc (param_value (params req ''id'')) (h, s) = (Inr v, h', s')"
  shows "deleteTransaction svc req (incoming h s) =
    Inr \<lparr>heap = h', svc_state = s',
         calls = [(DeleteTransaction (param_value (params req ''id'')), h, Inr v)],
         logged = [],
         res = \<lparr>statusCode = 204, sent = [Body JUndefined]\<rparr>\<rparr>"
  using assms
  by (simp add: deleteTransaction_def coerce_txn_date_def new_Date_def set_txn_date_def run_defs)

subsection \<open>Outcomes of one service call, whichever it is\<close>

lemma getTransaction_settled:
  assumes "svc_getTransaction svc (param_value (params req ''id'')) (h, s) = (r, h1, s1)"
  shows "getTransaction svc req (incoming h s) =
    Inr \<lparr>heap = h1, svc_state = s1,
         calls = [(GetTransaction (param_value (params req ''id'')), h, r)],
         logged = (case r of
                     Inl e \<Rightarrow> if instance_of e = NotFoundError then [] else [e]
                   | Inr t \<Rightarrow> []),
         res = (case r of
                  Inl e \<Rightarrow>
                    if instance_of e = NotFoundError
                    then \<lparr>statusCode = 404,
                          sent = [Message (''Transaction '' @ param_text (params req ''id'')
                                           @ '' does not exist'')]\<rparr>
                    else \<lparr>statusCode = 500, sent = [Message (toString e)]\<rparr>
                | Inr t \<Rightarrow> \<lparr>statusCode = 200, sent = [Body t]\<rparr>)\<rparr>"
  using assms by (simp add: getTransaction_def run_defs split: sum.splits)

lemma deleteTransaction_settled:
  assumes "svc_deleteTransaction svc (param_value (params req ''id'')) (h, s) = (r, h1, s1)"
  shows "deleteTransaction svc req (incoming h s) =
    Inr \<lparr>heap = h1, svc_state = s1,
         calls = [(DeleteTransaction (param_value (params req ''id'')), h, r)],
         logged = (case r of Inl e \<Rightarrow> [e] | Inr v \<Rightarrow> []),
         res = (case r of
                  Inl e \<Rightarrow> \<lparr>statusCode = 500, sent = [Message (toString e)]\<rparr>
                | Inr v \<Rightarrow> \<lparr>statusCode = 204, sent = [Body JUndefined]\<rparr>)\<rparr>"
  using assms by (simp add: deleteTransaction_def run_defs split: sum.splits)

lemma getTransactions_grouped_settled:
  assumes "query req ''groupByCategory'' \<noteq> JUndefined"
    and "coerce_if_truthy (query req ''startDate'') = Inr startDate"
    and "coerce_if_truthy (query req ''endDate'') = Inr endDate"
    and "svc_getTransactionsByCategory svc startDate endDate (h, s) = (r, h1, s1)"
  shows "getTransactions svc req (incoming h s) =
    Inr \<lparr>heap = h1, svc_state = s1,
         calls = [(GetTransactionsByCategory startDate endDate, h, r)],
         logged = (case r of Inl e \<Rightarrow> [e] | Inr v \<Rightarrow> []),
         res = (case r of
                  Inl e \<Rightarrow> \<lparr>statusCode = 500, sent = [Message (toString e)]\<rparr>
                | Inr v \<Rightarrow> \<lparr>statusCode = 200, sent = [Body v]\<rparr>)\<rparr>"
  using assms by (simp add: getTransactions_def run_defs split: sum.splits)


subsection \<open>Throws that leave a handler\<close>

lemma unconvertible_example: "\<not> to_primitive_ok (JObj [(''toString'', JNum 1)])"
  by simp

lemma strings_convert: "coerce_if_truthy (JStr x) = Inr (if x = [] then JStr [] else JDate (JStr x))"
  by (simp add: coerce_if_truthy_def new_Date_def)

lemma falsy_is_kept: "\<not> truthy v \<Longrightarrow> coerce_if_truthy v = Inr v"
  by (simp add: coerce_if_truthy_def)

lemma createTransaction_throws:
  assumes "body req = Some a" and "\<not> to_primitive_ok (heap st a ''txn_date'')"
  shows "createTransaction svc req st =
         Inl (TypeError ''Cannot convert object to primitive value'')"
  using assms by (simp add: createTransaction_def coerce_txn_date_def new_Date_def)

lemma updateTransaction_throws:
  assumes "body req = Some a" and "\<not> to_primitive_ok (heap st a ''txn_date'')"
  shows "updateTransaction svc req st =
         Inl (TypeError ''Cannot convert object to primitive value'')"
  using assms by (simp add: updateTransaction_def coerce_txn_date_def new_Date_def)

lemma unconvertible_txn_date_throws:
  "createTransaction svc body_request (incoming unconvertible_heap s) =
     Inl (TypeError ''Cannot convert object to primitive value'') \<and>
   updateTransaction svc body_request (incoming unconvertible_heap s) =
     Inl (TypeError ''Cannot convert object to primitive value'')"
  by (simp add: createTransaction_throws [where a = 1] updateTransaction_throws [where a = 1]
      body_request_def incoming_def unconvertible_heap_def)

lemma getTransactions_throws:
  assumes "truthy (query req ''startDate'') \<and> \<not> to_primitive_ok (query req ''startDate'') \<or>
           truthy (query req ''endDate'') \<and> \<not> to_primitive_ok (query req ''endDate'')"
  shows "getTransactions svc req st =
         Inl (TypeError ''Cannot convert object to primitive value'')"
  using assms
  by (auto simp: getTransactions_def coerce_if_truthy_def new_Date_def Let_def)

subsection \<open>Status codes outside the get handler\<close>

lemma addRoutes_cases:
  assumes "(route, handler) \<in> set (addRoutes svc [])"
  obtains
    (create) "route = (POST, ''/transactions'')" "handler = createTransaction svc"
  | (update) "route = (PUT, ''/transactions/:id'')" "handler = updateTransaction svc"
  | (get) "route = (GET, ''/transactions/:id'')" "handler = getTransaction svc"
  | (list) "route = (GET, ''/transactions'')" "handler = getTransactions svc"
  | (delete) "route = (DELETE, ''/transactions/:id'')" "handler = deleteTransaction svc"
  using assms by (auto simp: addRoutes_def)

lemma createTransaction_status:
  assumes "createTransaction svc req (incoming h s) = Inr st'"
  shows "statusCode (res st') = 200 \<or> statusCode (res st') = 500"
  using assms
  by (auto simp: createTransaction_def run_defs split: option.splits prod.splits sum.splits)

lemma updateTransaction_status:
  assumes "updateTransaction svc req (incoming h s) = Inr st'"
  shows "statusCode (res st') = 200 \<or> statusCode (res st') = 500"
  using assms
  by (auto simp: updateTransaction_def run_defs split: option.splits prod.splits sum.splits)

lemma getTransactions_status:
  assumes "getTransactions svc req (incoming h s) = Inr st'"
  shows "statusCode (res st') = 200 \<or> statusCode (res st') = 500"
  using assms
  by (auto simp: getTransactions_def run_defs split: if_splits prod.splits sum.splits)

lemma deleteTransaction_status:
  assumes "deleteTransaction svc req (incoming h s) = Inr st'"
  shows "statusCode (res st') = 204 \<or> statusCode (res st') = 500"
  using assms
  by (auto simp: deleteTransaction_def run_defs split: prod.splits sum.splits)

lemma never_404_outside_get:
  assumes "(route, handler) \<in> set (addRoutes svc [])"
    and "route \<noteq> (GET, ''/transactions/:id'')"
    and "handler req (incoming h s) = Inr st'"
  shows "statusCode (res st') \<noteq> 404"
  using assms(1)
proof (cases rule: addRoutes_cases)
  case create
  with assms(3) createTransaction_status [of svc req h s st'] show ?thesis by auto
next
  case update
  with assms(3) updateTransaction_status [of svc req h s st'] show ?thesis by auto
next
  case get
  with assms(2) show ?thesis by simp
next
  case list
  with assms(3) getTransactions_status [of svc req h s st'] show ?thesis by auto
next
  case delete
  with assms(3) deleteTransaction_status [of svc req h s st'] show ?thesis by auto
qed

lemma getTransactions_grouped_call:
  assumes "query req ''groupByCategory'' \<noteq> JUndefined"
    and "getTransactions svc req (incoming h s) = Inr st'"
  shows "\<exists>r startDate endDate.
           coerce_if_truthy (query req ''startDate'') = Inr startDate \<and>
           coerce_if_truthy (query req ''endDate'') = Inr endDate \<and>
           calls st' = [(GetTransactionsByCategory startDate endDate, h, r)]"
  using assms
  by (auto simp: getTransactions_def run_defs split: prod.splits sum.splits)

subsection \<open>Creating and updating\<close>

text \<open>
  C1. When the body is an object whose \<^verbatim>\<open>txn_date\<close> converts, the mutating call resolves
  with a value \<open>t\<close> whose \<^verbatim>\<open>id\<close> can be read, and the \<^verbatim>\<open>getTransaction\<close> made with
  that id resolves with \<open>full\<close>, then create and update answer 200 with \<open>full\<close>, the
  record fetched again, and not with \<open>t\<close>; the two calls are made in that order and
  nothing is logged.
\<close>

theorem mutation_response_is_refetched_record:
  "(body req = Some a \<and>
    to_primitive_ok (h a ''txn_date'') \<and>
    svc_createTransaction svc a (set_txn_date a (JDate (h a ''txn_date'')) h, s) = (Inr t, h', s') \<and>
    get_prop t ''id'' = Inr i \<and>
    svc_getTransaction svc i (h', s') = (Inr full, h'', s'') \<longrightarrow>
      createTransaction svc req (incoming h s) =
        Inr \<lparr>heap = h'', svc_state = s'',
            calls = [(CreateTransaction a, set_txn_date a (JDate (h a ''txn_date'')) h, Inr t),
                     (GetTransaction i, h', Inr full)],
            logged = [],
            res = \<lparr>statusCode = 200, sent = [Body full]\<rparr>\<rparr>) \<and>
   (body req = Some a \<and>
    to_primitive_ok (h a ''txn_date'') \<and>
    svc_updateTransaction svc a (set_txn_date a (JDate (h a ''txn_date'')) h, s) = (Inr t, h', s') \<and>
    get_prop t ''id'' = Inr i \<and>
    svc_getTransaction svc i (h', s') = (Inr full, h'', s'') \<longrightarrow>
      updateTransaction svc req (incoming h s) =
        Inr \<lparr>heap = h'', svc_state = s'',
            calls = [(UpdateTransaction a, set_txn_date a (JDate (h a ''txn_date'')) h, Inr t),
                     (GetTransaction i, h', Inr full)],
            logged = [],
            res = \<lparr>statusCode = 200, sent = [Body full]\<rparr>\<rparr>)"
  apply (intro conjI impI)
  subgoal by ((elim conjE)?; rule createTransaction_refetched; assumption)
  subgoal by ((elim conjE)?; rule updateTransaction_refetched; assumption)
  done

theorem mutation_response_is_refetched_record_witness:
  "body body_request = Some 1 \<and>
   to_primitive_ok (sample_heap 1 ''txn_date'') \<and>
   get_prop (JObj [(''id'', JNum 7), (''txn_date'', JDate (JStr ''2014-03-01''))]) ''id'' = Inr (JNum 7) \<and>
   createTransaction (counting_service db_down) body_request (incoming sample_heap 2) =
     Inr \<lparr>heap = set_txn_date 1 (JDate (JStr ''2014-03-01'')) sample_heap, svc_state = 0,
          calls = [(CreateTransaction 1, set_txn_date 1 (JDate (JStr ''2014-03-01'')) sample_heap, Inr (JObj [(''id'', JNum 7), (''txn_date'', JDate (JStr ''2014-03-01''))])),
                   (GetTransaction (JNum 7), set_txn_date 1 (JDate (JStr ''2014-03-01'')) sample_heap, Inr (full_row (JNum 7)))],
          logged = [],
          res = \<lparr>statusCode = 200, sent = [Body (full_row (JNum 7))]\<rparr>\<rparr> \<and>
   updateTransaction (counting_service db_down) body_request (incoming sample_heap 2) =
     Inr \<lparr>heap = set_txn_date 1 (JDate (JStr ''2014-03-01'')) sample_heap, svc_state = 0,
          calls = [(UpdateTransaction 1, set_txn_date 1 (JDate (JStr ''2014-03-01'')) sample_heap, Inr (JObj [(''id'', JNum 9), (''txn_date'', JDate (JStr ''2014-03-01''))])),
                   (GetTransaction (JNum 9), set_txn_date 1 (JDate (JStr ''2014-03-01'')) sample_heap, Inr (full_row (JNum 9)))],
          logged = [],
          res = \<lparr>statusCode = 200, sent = [Body (full_row (JNum 9))]\<rparr>\<rparr>"
  using
    mutation_response_is_refetched_record
      [where svc = "counting_service db_down" and req = body_request and a = 1
         and h = sample_heap and s = 2 and t = "JObj [(''id'', JNum 7), (''txn_date'', JDate (JStr ''2014-03-01''))]" and i = "JNum 7"
         and h' = "set_txn_date 1 (JDate (JStr ''2014-03-01'')) sample_heap" and s' = 1 and full = "full_row (JNum 7)" and h'' = "set_txn_date 1 (JDate (JStr ''2014-03-01'')) sample_heap" and s'' = 0]
    mutation_response_is_refetched_record
      [where svc = "counting_service db_down" and req = body_request and a = 1
         and h = sample_heap and s = 2 and t = "JObj [(''id'', JNum 9), (''txn_date'', JDate (JStr ''2014-03-01''))]" and i = "JNum 9"
         and h' = "set_txn_date 1 (JDate (JStr ''2014-03-01'')) sample_heap" and s' = 1 and full = "full_row (JNum 9)" and h'' = "set_txn_date 1 (JDate (JStr ''2014-03-01'')) sample_heap" and s'' = 0]
  by (simp add: createTransaction_def updateTransaction_def coerce_txn_date_def new_Date_def
      run_defs counting_service_def settle_def stored_row_def full_row_def sample_heap_def
      body_request_def set_txn_date_def no_props_def)

subsection \<open>Getting one transaction\<close>

text \<open>
  C2. For the id \<open>i\<close> of the route and the outcome \<open>r\<close> of the service's
  \<^verbatim>\<open>getTransaction\<close>: an instance of NotFoundError gives 404 with the message
  \<^verbatim>\<open>Transaction i does not exist\<close>, any other error gives 500 with the error's
  \<^verbatim>\<open>toString()\<close> as the message, a resolved promise gives 200 with the transaction.
\<close>

theorem getTransaction_status_by_error_kind:
  assumes "params req ''id'' = Some i"
    and "svc_getTransaction svc (JStr i) (h, s) = (r, h1, s1)"
  shows "getTransaction svc req (incoming h s) =
    Inr \<lparr>heap = h1, svc_state = s1,
         calls = [(GetTransaction (JStr i), h, r)],
         logged = (case r of
                     Inl e \<Rightarrow> if instance_of e = NotFoundError then [] else [e]
                   | Inr t \<Rightarrow> []),
         res = (case r of
                  Inl e \<Rightarrow>
                    if instance_of e = NotFoundError
                    then \<lparr>statusCode = 404,
                          sent = [Message (''Transaction '' @ i @ '' does not exist'')]\<rparr>
                    else \<lparr>statusCode = 500, sent = [Message (toString e)]\<rparr>
                | Inr t \<Rightarrow> \<lparr>statusCode = 200, sent = [Body t]\<rparr>)\<rparr>"
  using getTransaction_settled [of svc req h s r h1 s1] assms by (cases r) simp_all

theorem getTransaction_status_by_error_kind_witness:
  "params id_request ''id'' = Some ''42'' \<and>
   getTransaction (counting_service not_found) id_request (incoming sample_heap 0) =
     Inr \<lparr>heap = sample_heap, svc_state = 0,
          calls = [(GetTransaction (JStr ''42''), sample_heap, Inl not_found)],
          logged = [],
          res = \<lparr>statusCode = 404, sent = [Message ''Transaction 42 does not exist'']\<rparr>\<rparr> \<and>
   getTransaction (counting_service db_down) id_request (incoming sample_heap 0) =
     Inr \<lparr>heap = sample_heap, svc_state = 0,
          calls = [(GetTransaction (JStr ''42''), sample_heap, Inl db_down)],
          logged = [db_down],
          res = \<lparr>statusCode = 500, sent = [Message ''Error: connection refused'']\<rparr>\<rparr> \<and>
   getTransaction (counting_service db_down) id_request (incoming sample_heap 1) =
     Inr \<lparr>heap = sample_heap, svc_state = 0,
          calls = [(GetTransaction (JStr ''42''), sample_heap, Inr (full_row (JStr ''42'')))],
          logged = [],
          res = \<lparr>statusCode = 200, sent = [Body (full_row (JStr ''42''))]\<rparr>\<rparr>"
  using
    getTransaction_status_by_error_kind
      [of id_request "''42''" "counting_service not_found" sample_heap 0 "Inl not_found"
          sample_heap 0]
    getTransaction_status_by_error_kind
      [of id_request "''42''" "counting_service db_down" sample_heap 0 "Inl db_down"
          sample_heap 0]
    getTransaction_status_by_error_kind
      [of id_request "''42''" "counting_service db_down" sample_heap 1
          "Inr (full_row (JStr ''42''))" sample_heap 0]
  by (simp add: counting_service_def settle_def id_request_def no_params_def not_found_def
      db_down_def)

subsection \<open>Deleting\<close>

text \<open>
  C4. Whenever the service's \<^verbatim>\<open>deleteTransaction\<close> resolves, with any value and for
  any service, the handler answers 204 with an empty body; that call is the only one it
  makes on the service.
\<close>

theorem deleteTransaction_204_on_success:
  assumes "svc_deleteTransaction svc (param_value (params req ''id'')) (h, s) = (Inr v, h1, s1)"
  shows "deleteTransaction svc req (incoming h s) =
    Inr \<lparr>heap = h1, svc_state = s1,
         calls = [(DeleteTransaction (param_value (params req ''id'')), h, Inr v)],
         logged = [],
         res = \<lparr>statusCode = 204, sent = [Body JUndefined]\<rparr>\<rparr>"
  using deleteTransaction_settled [OF assms] by simp

theorem deleteTransaction_204_on_success_witness:
  "deleteTransaction (counting_service not_found) id_request (incoming sample_heap 1) =
     Inr \<lparr>heap = sample_heap, svc_state = 0,
          calls = [(DeleteTransaction (JStr ''42''), sample_heap, Inr (JNum 1))],
          logged = [],
          res = \<lparr>statusCode = 204, sent = [Body JUndefined]\<rparr>\<rparr>"
  using deleteTransaction_204_on_success
    [of "counting_service not_found" id_request sample_heap 1 "JNum 1" sample_heap 0]
  by (simp add: counting_service_def settle_def id_request_def no_params_def)

subsection \<open>Listing\<close>

text \<open>
  C5. With \<^verbatim>\<open>groupByCategory\<close> in the query the handler calls
  \<^verbatim>\<open>getTransactionsByCategory\<close> with the start and end dates as its conversions leave
  them, and sends what the service resolved with; without it, it calls
  \<^verbatim>\<open>getTransactions\<close> with the \<^verbatim>\<open>account\<close> parameter as it is (\<^verbatim>\<open>undefined\<close> when
  absent) and sends the result.
\<close>

theorem getTransactions_chooses_listing:
  "(query req ''groupByCategory'' \<noteq> JUndefined \<and>
    coerce_if_truthy (query req ''startDate'') = Inr startDate \<and>
    coerce_if_truthy (query req ''endDate'') = Inr endDate \<and>
    svc_getTransactionsByCategory svc startDate endDate (h, s) = (Inr v, h', s') \<longrightarrow>
      getTransactions svc req (incoming h s) =
        Inr \<lparr>heap = h', svc_state = s',
            calls = [(GetTransactionsByCategory startDate endDate, h, Inr v)],
            logged = [],
            res = \<lparr>statusCode = 200, sent = [Body v]\<rparr>\<rparr>) \<and>
   (query req ''groupByCategory'' = JUndefined \<and>
    coerce_if_truthy (query req ''startDate'') = Inr startDate \<and>
    coerce_if_truthy (query req ''endDate'') = Inr endDate \<and>
    svc_getTransactions svc (query req ''account'') (h, s) = (Inr v, h', s') \<longrightarrow>
      getTransactions svc req (incoming h s) =
        Inr \<lparr>heap = h', svc_state = s',
            calls = [(GetTransactions (query req ''account''), h, Inr v)],
            logged = [],
            res = \<lparr>statusCode = 200, sent = [Body v]\<rparr>\<rparr>)"
  apply (intro conjI impI)
  subgoal by ((elim conjE)?; rule getTransactions_grouped_resolved; assumption)
  subgoal by ((elim conjE)?; rule getTransactions_flat_resolved; assumption)
  done

theorem getTransactions_chooses_listing_witness:
  "query grouped_request ''groupByCategory'' \<noteq> JUndefined \<and>
   getTransactions (counting_service db_down) grouped_request (incoming sample_heap 1) =
     Inr \<lparr>heap = sample_heap, svc_state = 0,
          calls = [(GetTransactionsByCategory (JDate (JStr ''2014-01-01'')) (JDate (JStr ''2014-12-31'')), sample_heap, Inr (JArr [JStr ''grouped'', JDate (JStr ''2014-01-01''), JDate (JStr ''2014-12-31'')]))],
          logged = [],
          res = \<lparr>statusCode = 200, sent = [Body (JArr [JStr ''grouped'', JDate (JStr ''2014-01-01''), JDate (JStr ''2014-12-31'')])]\<rparr>\<rparr> \<and>
   query account_request ''groupByCategory'' = JUndefined \<and>
   getTransactions (counting_service db_down) account_request (incoming sample_heap 1) =
     Inr \<lparr>heap = sample_heap, svc_state = 0,
          calls = [(GetTransactions (JStr ''3''), sample_heap, Inr (JArr [JStr ''flat'', JStr ''3'']))],
          logged = [],
          res = \<lparr>statusCode = 200, sent = [Body (JArr [JStr ''flat'', JStr ''3''])]\<rparr>\<rparr>"
  using
    getTransactions_chooses_listing
      [where svc = "counting_service db_down"
         and req = "grouped_request"
         and h = "sample_heap"
         and s = "1"
         and startDate = "JDate (JStr ''2014-01-01'')"
         and endDate = "JDate (JStr ''2014-12-31'')"
         and v = "JArr [JStr ''grouped'', JDate (JStr ''2014-01-01''), JDate (JStr ''2014-12-31'')]"
         and h' = "sample_heap"
         and s' = "0", THEN conjunct1]
    getTransactions_chooses_listing
      [where svc = "counting_service db_down"
         and req = "account_request"
         and h = "sample_heap"
         and s = "1"
         and startDate = "JUndefined"
         and endDate = "JUndefined"
         and v = "JArr [JStr ''flat'', JStr ''3'']"
         and h' = "sample_heap"
         and s' = "0", THEN conjunct2]
  by (simp add: getTransactions_def coerce_if_truthy_def new_Date_def run_defs
      counting_service_def settle_def no_props_def no_params_def grouped_request_def
      account_request_def)

text \<open>
  C8. The grouped listing is chosen whenever \<^verbatim>\<open>groupByCategory\<close> is not
  \<^verbatim>\<open>undefined\<close>, falsy values such as the empty string included, and then the
  \<^verbatim>\<open>account\<close> parameter has no influence: with any other value for it the handler does
  the same.
\<close>

theorem groupByCategory_tested_for_definedness:
  assumes "query req ''groupByCategory'' \<noteq> JUndefined"
    and "getTransactions svc req (incoming h s) = Inr st'"
  shows "(\<exists>r startDate endDate.
            coerce_if_truthy (query req ''startDate'') = Inr startDate \<and>
            coerce_if_truthy (query req ''endDate'') = Inr endDate \<and>
            calls st' = [(GetTransactionsByCategory startDate endDate, h, r)]) \<and>
         getTransactions svc (req\<lparr>query := (query req)(''account'' := x)\<rparr>) (incoming h s) =
           Inr st'"
proof
  from getTransactions_grouped_call [OF assms]
  show "\<exists>r startDate endDate.
            coerce_if_truthy (query req ''startDate'') = Inr startDate \<and>
            coerce_if_truthy (query req ''endDate'') = Inr endDate \<and>
            calls st' = [(GetTransactionsByCategory startDate endDate, h, r)]" .
next
  from assms
  show "getTransactions svc (req\<lparr>query := (query req)(''account'' := x)\<rparr>) (incoming h s) =
           Inr st'"
    by (simp add: getTransactions_def Let_def split: sum.splits)
qed

theorem groupByCategory_tested_for_definedness_witness:
  "query grouped_request ''groupByCategory'' = JStr [] \<and>
   \<not> truthy (query grouped_request ''groupByCategory'') \<and>
   query grouped_request ''account'' = JUndefined \<and>
   getTransactions (counting_service db_down) grouped_request (incoming sample_heap 1) =
     Inr \<lparr>heap = sample_heap, svc_state = 0,
          calls = [(GetTransactionsByCategory (JDate (JStr ''2014-01-01'')) (JDate (JStr ''2014-12-31'')), sample_heap, Inr (JArr [JStr ''grouped'', JDate (JStr ''2014-01-01''), JDate (JStr ''2014-12-31'')]))],
          logged = [],
          res = \<lparr>statusCode = 200, sent = [Body (JArr [JStr ''grouped'', JDate (JStr ''2014-01-01''), JDate (JStr ''2014-12-31'')])]\<rparr>\<rparr> \<and>
   getTransactions (counting_service db_down)
       (grouped_request\<lparr>query := (query grouped_request)(''account'' := JStr ''3'')\<rparr>)
       (incoming sample_heap 1) =
     Inr \<lparr>heap = sample_heap, svc_state = 0,
          calls = [(GetTransactionsByCategory (JDate (JStr ''2014-01-01'')) (JDate (JStr ''2014-12-31'')), sample_heap, Inr (JArr [JStr ''grouped'', JDate (JStr ''2014-01-01''), JDate (JStr ''2014-12-31'')]))],
          logged = [],
          res = \<lparr>statusCode = 200, sent = [Body (JArr [JStr ''grouped'', JDate (JStr ''2014-01-01''), JDate (JStr ''2014-12-31'')])]\<rparr>\<rparr>"
  using
    groupByCategory_tested_for_definedness
      [where svc = "counting_service db_down"
         and req = "grouped_request"
         and h = "sample_heap"
         and s = "1"
         and st' = "\<lparr>heap = sample_heap, svc_state = 0,
          calls = [(GetTransactionsByCategory (JDate (JStr ''2014-01-01'')) (JDate (JStr ''2014-12-31'')), sample_heap, Inr (JArr [JStr ''grouped'', JDate (JStr ''2014-01-01''), JDate (JStr ''2014-12-31'')]))],
          logged = [],
          res = \<lparr>statusCode = 200, sent = [Body (JArr [JStr ''grouped'', JDate (JStr ''2014-01-01''), JDate (JStr ''2014-12-31'')])]\<rparr>\<rparr>"
         and x = "JStr ''3''"]
  by (simp add: getTransactions_def coerce_if_truthy_def new_Date_def run_defs
      counting_service_def settle_def no_props_def no_params_def grouped_request_def)

text \<open>
  C9, as the code has it. On the grouped listing a \<^verbatim>\<open>startDate\<close> or \<^verbatim>\<open>endDate\<close> that is
  absent is passed to \<^verbatim>\<open>getTransactionsByCategory\<close> as \<^verbatim>\<open>undefined\<close> and one that is
  empty as the empty string, neither converted: the service is applied to the value
  itself, no request is refused and no date is put in its place, and the response is
  made from the service's outcome.
\<close>

theorem falsy_dates_pass_through:
  "(query req ''groupByCategory'' \<noteq> JUndefined \<and>
    (query req ''startDate'' = JUndefined \<or> query req ''startDate'' = JStr []) \<and>
    coerce_if_truthy (query req ''endDate'') = Inr endDate \<and>
    svc_getTransactionsByCategory svc (query req ''startDate'') endDate (h, s) = (r, h', s') \<longrightarrow>
      getTransactions svc req (incoming h s) =
        Inr \<lparr>heap = h', svc_state = s',
            calls = [(GetTransactionsByCategory (query req ''startDate'') endDate, h, r)],
            logged = (case r of Inl e \<Rightarrow> [e] | Inr v \<Rightarrow> []),
            res = (case r of
                     Inl e \<Rightarrow> \<lparr>statusCode = 500, sent = [Message (toString e)]\<rparr>
                   | Inr v \<Rightarrow> \<lparr>statusCode = 200, sent = [Body v]\<rparr>)\<rparr>) \<and>
   (query req ''groupByCategory'' \<noteq> JUndefined \<and>
    (query req ''endDate'' = JUndefined \<or> query req ''endDate'' = JStr []) \<and>
    coerce_if_truthy (query req ''startDate'') = Inr startDate \<and>
    svc_getTransactionsByCategory svc startDate (query req ''endDate'') (h, s) = (r, h', s') \<longrightarrow>
      getTransactions svc req (incoming h s) =
        Inr \<lparr>heap = h', svc_state = s',
            calls = [(GetTransactionsByCategory startDate (query req ''endDate''), h, r)],
            logged = (case r of Inl e \<Rightarrow> [e] | Inr v \<Rightarrow> []),
            res = (case r of
                     Inl e \<Rightarrow> \<lparr>statusCode = 500, sent = [Message (toString e)]\<rparr>
                   | Inr v \<Rightarrow> \<lparr>statusCode = 200, sent = [Body v]\<rparr>)\<rparr>)"
  apply (intro conjI impI)
  subgoal
    by (elim conjE disjE)
      (simp_all add: getTransactions_def coerce_if_truthy_def run_defs split: sum.splits)
  subgoal
    by (elim conjE disjE)
      (simp_all add: getTransactions_def coerce_if_truthy_def run_defs split: sum.splits)
  done

theorem falsy_dates_pass_through_witness:
  "query empty_start_request ''groupByCategory'' \<noteq> JUndefined \<and>
   query empty_start_request ''startDate'' = JStr [] \<and>
   getTransactions (counting_service db_down) empty_start_request (incoming sample_heap 1) =
     Inr \<lparr>heap = sample_heap, svc_state = 0,
          calls = [(GetTransactionsByCategory (JStr []) (JDate (JStr ''2014-12-31'')), sample_heap, Inr (JArr [JStr ''grouped'', JStr [], JDate (JStr ''2014-12-31'')]))],
          logged = [],
          res = \<lparr>statusCode = 200, sent = [Body (JArr [JStr ''grouped'', JStr [], JDate (JStr ''2014-12-31'')])]\<rparr>\<rparr> \<and>
   query no_dates_request ''startDate'' = JUndefined \<and>
   query no_dates_request ''endDate'' = JUndefined \<and>
   getTransactions (counting_service db_down) no_dates_request (incoming sample_heap 1) =
     Inr \<lparr>heap = sample_heap, svc_state = 0,
          calls = [(GetTransactionsByCategory (JUndefined) (JUndefined), sample_heap, Inr (JArr [JStr ''grouped'', JUndefined, JUndefined]))],
          logged = [],
          res = \<lparr>statusCode = 200, sent = [Body (JArr [JStr ''grouped'', JUndefined, JUndefined])]\<rparr>\<rparr> \<and>
   query empty_end_request ''endDate'' = JStr [] \<and>
   getTransactions (counting_service db_down) empty_end_request (incoming sample_heap 1) =
     Inr \<lparr>heap = sample_heap, svc_state = 0,
          calls = [(GetTransactionsByCategory (JDate (JStr ''2014-01-01'')) (JStr []), sample_heap, Inr (JArr [JStr ''grouped'', JDate (JStr ''2014-01-01''), JStr []]))],
          logged = [],
          res = \<lparr>statusCode = 200, sent = [Body (JArr [JStr ''grouped'', JDate (JStr ''2014-01-01''), JStr []])]\<rparr>\<rparr>"
  using
    falsy_dates_pass_through
      [where svc = "counting_service db_down"
         and req = "empty_start_request"
         and h = "sample_heap"
         and s = "1"
         and endDate = "JDate (JStr ''2014-12-31'')"
         and r = "Inr (JArr [JStr ''grouped'', JStr [], JDate (JStr ''2014-12-31'')])"
         and h' = "sample_heap"
         and s' = "0", THEN conjunct1]
    falsy_dates_pass_through
      [where svc = "counting_service db_down"
         and req = "no_dates_request"
         and h = "sample_heap"
         and s = "1"
         and endDate = "JUndefined"
         and r = "Inr (JArr [JStr ''grouped'', JUndefined, JUndefined])"
         and h' = "sample_heap"
         and s' = "0", THEN conjunct1]
    falsy_dates_pass_through
      [where svc = "counting_service db_down"
         and req = "empty_end_request"
         and h = "sample_heap"
         and s = "1"
         and startDate = "JDate (JStr ''2014-01-01'')"
         and r = "Inr (JArr [JStr ''grouped'', JDate (JStr ''2014-01-01''), JStr []])"
         and h' = "sample_heap"
         and s' = "0", THEN conjunct2]
  by (simp add: getTransactions_def coerce_if_truthy_def new_Date_def run_defs
      counting_service_def settle_def no_props_def no_params_def empty_start_request_def
      empty_end_request_def no_dates_request_def)

text \<open>
  An empty parameter is not passed as \<^verbatim>\<open>undefined\<close>:
  \<^verbatim>\<open>GET /transactions?groupByCategory&startDate=&endDate=2014-12-31\<close> hands the empty
  string to the service as the start date.
\<close>

theorem empty_startDate_is_not_undefined:
  "query empty_start_request ''startDate'' = JStr [] \<and>
   JStr [] \<noteq> JUndefined \<and>
   getTransactions (counting_service not_found) empty_start_request (incoming sample_heap 1) =
     Inr \<lparr>heap = sample_heap, svc_state = 0,
          calls = [(GetTransactionsByCategory (JStr []) (JDate (JStr ''2014-12-31'')), sample_heap, Inr (JArr [JStr ''grouped'', JStr [], JDate (JStr ''2014-12-31'')]))],
          logged = [],
          res = \<lparr>statusCode = 200, sent = [Body (JArr [JStr ''grouped'', JStr [], JDate (JStr ''2014-12-31'')])]\<rparr>\<rparr>"
  by (simp add: getTransactions_def coerce_if_truthy_def new_Date_def run_defs
      counting_service_def settle_def empty_start_request_def no_props_def)

subsection \<open>Errors\<close>

text \<open>
  C3. Create, update, list and delete answer a rejection \<open>e\<close> of any service call they
  make, of the mutation, of the re-fetch, of either listing or of the deletion, with 500
  and the message \<^verbatim>\<open>e.toString()\<close>, log it and return, whatever the kind of \<open>e\<close>, a
  NotFoundError included. On the routes registered by \<^verbatim>\<open>addRoutes\<close> other than
  \<^verbatim>\<open>GET /transactions/:id\<close> a handler that has returned never answers 404.
\<close>

theorem not_found_is_500_outside_get:
  "(body req = Some a \<and>
    to_primitive_ok (h a ''txn_date'') \<and>
    svc_createTransaction svc a (set_txn_date a (JDate (h a ''txn_date'')) h, s) = (Inl e, h', s') \<longrightarrow>
      createTransaction svc req (incoming h s) =
        Inr \<lparr>heap = h', svc_state = s',
            calls = [(CreateTransaction a, set_txn_date a (JDate (h a ''txn_date'')) h, Inl e)],
            logged = [e],
            res = \<lparr>statusCode = 500, sent = [Message (toString e)]\<rparr>\<rparr>) \<and>
   (body req = Some a \<and>
    to_primitive_ok (h a ''txn_date'') \<and>
    svc_createTransaction svc a (set_txn_date a (JDate (h a ''txn_date'')) h, s) = (Inr t, h', s') \<and>
    get_prop t ''id'' = Inr i \<and>
    svc_getTransaction svc i (h', s') = (Inl e, h'', s'') \<longrightarrow>
      createTransaction svc req (incoming h s) =
        Inr \<lparr>heap = h'', svc_state = s'',
            calls = [(CreateTransaction a, set_txn_date a (JDate (h a ''txn_date'')) h, Inr t),
                     (GetTransaction i, h', Inl e)],
            logged = [e],
            res = \<lparr>statusCode = 500, sent = [Message (toString e)]\<rparr>\<rparr>) \<and>
   (body req = Some a \<and>
    to_primitive_ok (h a ''txn_date'') \<and>
    svc_updateTransaction svc a (set_txn_date a (JDate (h a ''txn_date'')) h, s) = (Inl e, h', s') \<longrightarrow>
      updateTransaction svc req (incoming h s) =
        Inr \<lparr>heap = h', svc_state = s',
            calls = [(UpdateTransaction a, set_txn_date a (JDate (h a ''txn_date'')) h, Inl e)],
            logged = [e],
            res = \<lparr>statusCode = 500, sent = [Message (toString e)]\<rparr>\<rparr>) \<and>
   (body req = Some a \<and>
    to_primitive_ok (h a ''txn_date'') \<and>
    svc_updateTransaction svc a (set_txn_date a (JDate (h a ''txn_date'')) h, s) = (Inr t, h', s') \<and>
    get_prop t ''id'' = Inr i \<and>
    svc_getTransaction svc i (h', s') = (Inl e, h'', s'') \<longrightarrow>
      updateTransaction svc req (incoming h s) =
        Inr \<lparr>heap = h'', svc_state = s'',
            calls = [(UpdateTransaction a, set_txn_date a (JDate (h a ''txn_date'')) h, Inr t),
                     (GetTransaction i, h', Inl e)],
            logged = [e],
            res = \<lparr>statusCode = 500, sent = [Message (toString e)]\<rparr>\<rparr>) \<and>
   (query req ''groupByCategory'' \<noteq> JUndefined \<and>
    coerce_if_truthy (query req ''startDate'') = Inr startDate \<and>
    coerce_if_truthy (query req ''endDate'') = Inr endDate \<and>
    svc_getTransactionsByCategory svc startDate endDate (h, s) = (Inl e, h', s') \<longrightarrow>
      getTransactions svc req (incoming h s) =
        Inr \<lparr>heap = h', svc_state = s',
            calls = [(GetTransactionsByCategory startDate endDate, h, Inl e)],
            logged = [e],
            res = \<lparr>statusCode = 500, sent = [Message (toString e)]\<rparr>\<rparr>) \<and>
   (query req ''groupByCategory'' = JUndefined \<and>
    coerce_if_truthy (query req ''startDate'') = Inr startDate \<and>
    coerce_if_truthy (query req ''endDate'') = Inr endDate \<and>
    svc_getTransactions svc (query req ''account'') (h, s) = (Inl e, h', s') \<longrightarrow>
      getTransactions svc req (incoming h s) =
        Inr \<lparr>heap = h', svc_state = s',
            calls = [(GetTransactions (query req ''account''), h, Inl e)],
            logged = [e],
            res = \<lparr>statusCode = 500, sent = [Message (toString e)]\<rparr>\<rparr>) \<and>
   (svc_deleteTransaction svc (param_value (params req ''id'')) (h, s) = (Inl e, h', s') \<longrightarrow>
      deleteTransaction svc req (incoming h s) =
        Inr \<lparr>heap = h', svc_state = s',
            calls = [(DeleteTransaction (param_value (params req ''id'')), h, Inl e)],
            logged = [e],
            res = \<lparr>statusCode = 500, sent = [Message (toString e)]\<rparr>\<rparr>) \<and>
   ((route, handler) \<in> set (addRoutes svc []) \<and>
    route \<noteq> (GET, ''/transactions/:id'') \<and>
    handler req (incoming h s) = Inr st' \<longrightarrow>
      statusCode (res st') \<noteq> 404)"
  apply (intro conjI impI)
  subgoal by ((elim conjE)?; rule createTransaction_rejected; assumption)
  subgoal by ((elim conjE)?; rule createTransaction_refetch_rejected; assumption)
  subgoal by ((elim conjE)?; rule updateTransaction_rejected; assumption)
  subgoal by ((elim conjE)?; rule updateTransaction_refetch_rejected; assumption)
  subgoal by ((elim conjE)?; rule getTransactions_grouped_rejected; assumption)
  subgoal by ((elim conjE)?; rule getTransactions_flat_rejected; assumption)
  subgoal by ((elim conjE)?; rule deleteTransaction_rejected; assumption)
  subgoal by ((elim conjE)?; rule never_404_outside_get; assumption)
  done

theorem not_found_is_500_outside_get_witness:
  "instance_of not_found = NotFoundError \<and>
   createTransaction (counting_service not_found) body_request (incoming sample_heap 0) =
     Inr \<lparr>heap = set_txn_date 1 (JDate (JStr ''2014-03-01'')) sample_heap, svc_state = 0,
          calls = [(CreateTransaction 1, set_txn_date 1 (JDate (JStr ''2014-03-01'')) sample_heap, Inl not_found)],
          logged = [not_found],
          res = \<lparr>statusCode = 500, sent = [Message (toString not_found)]\<rparr>\<rparr> \<and>
   createTransaction (counting_service not_found) body_request (incoming sample_heap 1) =
     Inr \<lparr>heap = set_txn_date 1 (JDate (JStr ''2014-03-01'')) sample_heap, svc_state = 0,
          calls = [(CreateTransaction 1, set_txn_date 1 (JDate (JStr ''2014-03-01'')) sample_heap, Inr (JObj [(''id'', JNum 7), (''txn_date'', JDate (JStr ''2014-03-01''))])),
                   (GetTransaction (JNum 7), set_txn_date 1 (JDate (JStr ''2014-03-01'')) sample_heap, Inl not_found)],
          logged = [not_found],
          res = \<lparr>statusCode = 500, sent = [Message (toString not_found)]\<rparr>\<rparr> \<and>
   updateTransaction (counting_service not_found) body_request (incoming sample_heap 0) =
     Inr \<lparr>heap = set_txn_date 1 (JDate (JStr ''2014-03-01'')) sample_heap, svc_state = 0,
          calls = [(UpdateTransaction 1, set_txn_date 1 (JDate (JStr ''2014-03-01'')) sample_heap, Inl not_found)],
          logged = [not_found],
          res = \<lparr>statusCode = 500, sent = [Message (toString not_found)]\<rparr>\<rparr> \<and>
   updateTransaction (counting_service not_found) body_request (incoming sample_heap 1) =
     Inr \<lparr>heap = set_txn_date 1 (JDate (JStr ''2014-03-01'')) sample_heap, svc_state = 0,
          calls = [(UpdateTransaction 1, set_txn_date 1 (JDate (JStr ''2014-03-01'')) sample_heap, Inr (JObj [(''id'', JNum 9), (''txn_date'', JDate (JStr ''2014-03-01''))])),
                   (GetTransaction (JNum 9), set_txn_date 1 (JDate (JStr ''2014-03-01'')) sample_heap, Inl not_found)],
          logged = [not_found],
          res = \<lparr>statusCode = 500, sent = [Message (toString not_found)]\<rparr>\<rparr> \<and>
   getTransactions (counting_service not_found) grouped_request (incoming sample_heap 0) =
     Inr \<lparr>heap = sample_heap, svc_state = 0,
          calls = [(GetTransactionsByCategory (JDate (JStr ''2014-01-01'')) (JDate (JStr ''2014-12-31'')), sample_heap, Inl not_found)],
          logged = [not_found],
          res = \<lparr>statusCode = 500, sent = [Message (toString not_found)]\<rparr>\<rparr> \<and>
   getTransactions (counting_service not_found) account_request (incoming sample_heap 0) =
     Inr \<lparr>heap = sample_heap, svc_state = 0,
          calls = [(GetTransactions (JStr ''3''), sample_heap, Inl not_found)],
          logged = [not_found],
          res = \<lparr>statusCode = 500, sent = [Message (toString not_found)]\<rparr>\<rparr> \<and>
   deleteTransaction (counting_service not_found) id_request (incoming sample_heap 0) =
     Inr \<lparr>heap = sample_heap, svc_state = 0,
          calls = [(DeleteTransaction (JStr ''42''), sample_heap, Inl not_found)],
          logged = [not_found],
          res = \<lparr>statusCode = 500, sent = [Message (toString not_found)]\<rparr>\<rparr> \<and>
   ((DELETE, ''/transactions/:id''), deleteTransaction (counting_service not_found))
     \<in> set (addRoutes (counting_service not_found) []) \<and>
   statusCode (res \<lparr>heap = sample_heap, svc_state = 0,
          calls = [(DeleteTransaction (JStr ''42''), sample_heap, Inl not_found)],
          logged = [not_found],
          res = \<lparr>statusCode = 500, sent = [Message (toString not_found)]\<rparr>\<rparr>) \<noteq> 404"
  using
    not_found_is_500_outside_get
      [where svc = "counting_service not_found"
         and req = "body_request"
         and a = "1"
         and h = "sample_heap"
         and s = "0"
         and e = "not_found"
         and h' = "set_txn_date 1 (JDate (JStr ''2014-03-01'')) sample_heap"
         and s' = "0", THEN conjunct1]
    not_found_is_500_outside_get
      [where svc = "counting_service not_found"
         and req = "body_request"
         and a = "1"
         and h = "sample_heap"
         and s = "1"
         and t = "JObj [(''id'', JNum 7), (''txn_date'', JDate (JStr ''2014-03-01''))]"
         and i = "JNum 7"
         and e = "not_found"
         and h' = "set_txn_date 1 (JDate (JStr ''2014-03-01'')) sample_heap"
         and s' = "0"
         and h'' = "set_txn_date 1 (JDate (JStr ''2014-03-01'')) sample_heap"
         and s'' = "0", THEN conjunct2, THEN conjunct1]
    not_found_is_500_outside_get
      [where svc = "counting_service not_found"
         and req = "body_request"
         and a = "1"
         and h = "sample_heap"
         and s = "0"
         and e = "not_found"
         and h' = "set_txn_date 1 (JDate (JStr ''2014-03-01'')) sample_heap"
         and s' = "0", THEN conjunct2, THEN conjunct2, THEN conjunct1]
    not_found_is_500_outside_get
      [where svc = "counting_service not_found"
         and req = "body_request"
         and a = "1"
         and h = "sample_heap"
         and s = "1"
         and t = "JObj [(''id'', JNum 9), (''txn_date'', JDate (JStr ''2014-03-01''))]"
         and i = "JNum 9"
         and e = "not_found"
         and h' = "set_txn_date 1 (JDate (JStr ''2014-03-01'')) sample_heap"
         and s' = "0"
         and h'' = "set_txn_date 1 (JDate (JStr ''2014-03-01'')) sample_heap"
         and s'' = "0", THEN conjunct2, THEN conjunct2, THEN conjunct2, THEN conjunct1]
    not_found_is_500_outside_get
      [where svc = "counting_service not_found"
         and req = "grouped_request"
         and h = "sample_heap"
         and s = "0"
         and startDate = "JDate (JStr ''2014-01-01'')"
         and endDate = "JDate (JStr ''2014-12-31'')"
         and e = "not_found"
         and h' = "sample_heap"
         and s' = "0", THEN conjunct2, THEN conjunct2, THEN conjunct2, THEN conjunct2, THEN conjunct1]
    not_found_is_500_outside_get
      [where svc = "counting_service not_found"
         and req = "account_request"
         and h = "sample_heap"
         and s = "0"
         and startDate = "JUndefined"
         and endDate = "JUndefined"
         and e = "not_found"
         and h' = "sample_heap"
         and s' = "0", THEN conjunct2, THEN conjunct2, THEN conjunct2, THEN conjunct2, THEN conjunct2, THEN conjunct1]
    not_found_is_500_outside_get
      [where svc = "counting_service not_found"
         and req = "id_request"
         and h = "sample_heap"
         and s = "0"
         and e = "not_found"
         and h' = "sample_heap"
         and s' = "0", THEN conjunct2, THEN conjunct2, THEN conjunct2, THEN conjunct2, THEN conjunct2, THEN conjunct2, THEN conjunct1]
    not_found_is_500_outside_get
      [where svc = "counting_service not_found"
         and route = "(DELETE, ''/transactions/:id'')"
         and handler = "deleteTransaction (counting_service not_found)"
         and req = "id_request"
         and h = "sample_heap"
         and s = "0"
         and st' = "\<lparr>heap = sample_heap, svc_state = 0,
          calls = [(DeleteTransaction (JStr ''42''), sample_heap, Inl not_found)],
          logged = [not_found],
          res = \<lparr>statusCode = 500, sent = [Message (toString not_found)]\<rparr>\<rparr>", THEN conjunct2, THEN conjunct2, THEN conjunct2, THEN conjunct2, THEN conjunct2, THEN conjunct2, THEN conjunct2]
  by (simp add: createTransaction_def updateTransaction_def coerce_txn_date_def new_Date_def
      set_txn_date_def stored_row_def full_row_def sample_heap_def body_request_def
      getTransactions_def coerce_if_truthy_def deleteTransaction_def addRoutes_def
      run_defs counting_service_def settle_def no_props_def no_params_def
      grouped_request_def account_request_def id_request_def not_found_def)

text \<open>
  C7, as the code has it. Every handler answers a rejection \<open>e\<close> of a service call with
  a status and a \<^verbatim>\<open>{message}\<close> body and returns: nothing is thrown further. The error
  is logged and the message is \<^verbatim>\<open>e.toString()\<close> with status 500, except on the
  not-found branch of get, where the message is \<^verbatim>\<open>Transaction {id} does not exist\<close> with
  status 404 and nothing is logged.
\<close>

theorem service_errors_end_in_the_handler:
  "(body req = Some a \<and>
    to_primitive_ok (h a ''txn_date'') \<and>
    svc_createTransaction svc a (set_txn_date a (JDate (h a ''txn_date'')) h, s) = (Inl e, h', s') \<longrightarrow>
      createTransaction svc req (incoming h s) =
        Inr \<lparr>heap = h', svc_state = s',
            calls = [(CreateTransaction a, set_txn_date a (JDate (h a ''txn_date'')) h, Inl e)],
            logged = [e],
            res = \<lparr>statusCode = 500, sent = [Message (toString e)]\<rparr>\<rparr>) \<and>
   (body req = Some a \<and>
    to_primitive_ok (h a ''txn_date'') \<and>
    svc_createTransaction svc a (set_txn_date a (JDate (h a ''txn_date'')) h, s) = (Inr t, h', s') \<and>
    get_prop t ''id'' = Inr i \<and>
    svc_getTransaction svc i (h', s') = (Inl e, h'', s'') \<longrightarrow>
      createTransaction svc req (incoming h s) =
        Inr \<lparr>heap = h'', svc_state = s'',
            calls = [(CreateTransaction a, set_txn_date a (JDate (h a ''txn_date'')) h, Inr t),
                     (GetTransaction i, h', Inl e)],
            logged = [e],
            res = \<lparr>statusCode = 500, sent = [Message (toString e)]\<rparr>\<rparr>) \<and>
   (body req = Some a \<and>
    to_primitive_ok (h a ''txn_date'') \<and>
    svc_updateTransaction svc a (set_txn_date a (JDate (h a ''txn_date'')) h, s) = (Inl e, h', s') \<longrightarrow>
      updateTransaction svc req (incoming h s) =
        Inr \<lparr>heap = h', svc_state = s',
            calls = [(UpdateTransaction a, set_txn_date a (JDate (h a ''txn_date'')) h, Inl e)],
            logged = [e],
            res = \<lparr>statusCode = 500, sent = [Message (toString e)]\<rparr>\<rparr>) \<and>
   (body req = Some a \<and>
    to_primitive_ok (h a ''txn_date'') \<and>
    svc_updateTransaction svc a (set_txn_date a (JDate (h a ''txn_date'')) h, s) = (Inr t, h', s') \<and>
    get_prop t ''id'' = Inr i \<and>
    svc_getTransaction svc i (h', s') = (Inl e, h'', s'') \<longrightarrow>
      updateTransaction svc req (incoming h s) =
        Inr \<lparr>heap = h'', svc_state = s'',
            calls = [(UpdateTransaction a, set_txn_date a (JDate (h a ''txn_date'')) h, Inr t),
                     (GetTransaction i, h', Inl e)],
            logged = [e],
            res = \<lparr>statusCode = 500, sent = [Message (toString e)]\<rparr>\<rparr>) \<and>
   (query req ''groupByCategory'' \<noteq> JUndefined \<and>
    coerce_if_truthy (query req ''startDate'') = Inr startDate \<and>
    coerce_if_truthy (query req ''endDate'') = Inr endDate \<and>
    svc_getTransactionsByCategory svc startDate endDate (h, s) = (Inl e, h', s') \<longrightarrow>
      getTransactions svc req (incoming h s) =
        Inr \<lparr>heap = h', svc_state = s',
            calls = [(GetTransactionsByCategory startDate endDate, h, Inl e)],
            logged = [e],
            res = \<lparr>statusCode = 500, sent = [Message (toString e)]\<rparr>\<rparr>) \<and>
   (query req ''groupByCategory'' = JUndefined \<and>
    coerce_if_truthy (query req ''startDate'') = Inr startDate \<and>
    coerce_if_truthy (query req ''endDate'') = Inr endDate \<and>
    svc_getTransactions svc (query req ''account'') (h, s) = (Inl e, h', s') \<longrightarrow>
      getTransactions svc req (incoming h s) =
        Inr \<lparr>heap = h', svc_state = s',
            calls = [(GetTransactions (query req ''account''), h, Inl e)],
            logged = [e],
            res = \<lparr>statusCode = 500, sent = [Message (toString e)]\<rparr>\<rparr>) \<and>
   (svc_deleteTransaction svc (param_value (params req ''id'')) (h, s) = (Inl e, h', s') \<longrightarrow>
      deleteTransaction svc req (incoming h s) =
        Inr \<lparr>heap = h', svc_state = s',
            calls = [(DeleteTransaction (param_value (params req ''id'')), h, Inl e)],
            logged = [e],
            res = \<lparr>statusCode = 500, sent = [Message (toString e)]\<rparr>\<rparr>) \<and>
   (svc_getTransaction svc (param_value (params req ''id'')) (h, s) = (Inl e, h', s') \<and>
    instance_of e = NotFoundError \<longrightarrow>
      getTransaction svc req (incoming h s) =
        Inr \<lparr>heap = h', svc_state = s',
            calls = [(GetTransaction (param_value (params req ''id'')), h, Inl e)],
            logged = [],
            res = \<lparr>statusCode = 404,
                  sent = [Message (''Transaction '' @ param_text (params req ''id'')
                                   @ '' does not exist'')]\<rparr>\<rparr>) \<and>
   (svc_getTransaction svc (param_value (params req ''id'')) (h, s) = (Inl e, h', s') \<and>
    instance_of e \<noteq> NotFoundError \<longrightarrow>
      getTransaction svc req (incoming h s) =
        Inr \<lparr>heap = h', svc_state = s',
            calls = [(GetTransaction (param_value (params req ''id'')), h, Inl e)],
            logged = [e],
            res = \<lparr>statusCode = 500, sent = [Message (toString e)]\<rparr>\<rparr>)"
  apply (intro conjI impI)
  subgoal by ((elim conjE)?; rule createTransaction_rejected; assumption)
  subgoal by ((elim conjE)?; rule createTransaction_refetch_rejected; assumption)
  subgoal by ((elim conjE)?; rule updateTransaction_rejected; assumption)
  subgoal by ((elim conjE)?; rule updateTransaction_refetch_rejected; assumption)
  subgoal by ((elim conjE)?; rule getTransactions_grouped_rejected; assumption)
  subgoal by ((elim conjE)?; rule getTransactions_flat_rejected; assumption)
  subgoal by ((elim conjE)?; rule deleteTransaction_rejected; assumption)
  subgoal by ((elim conjE)?; rule getTransaction_not_found; assumption)
  subgoal by ((elim conjE)?; rule getTransaction_rejected; assumption)
  done

theorem service_errors_end_in_the_handler_witness:
  "instance_of not_found = NotFoundError \<and>
   instance_of db_down \<noteq> NotFoundError \<and>
   createTransaction (counting_service db_down) body_request (incoming sample_heap 0) =
     Inr \<lparr>heap = set_txn_date 1 (JDate (JStr ''2014-03-01'')) sample_heap, svc_state = 0,
          calls = [(CreateTransaction 1, set_txn_date 1 (JDate (JStr ''2014-03-01'')) sample_heap, Inl db_down)],
          logged = [db_down],
          res = \<lparr>statusCode = 500, sent = [Message (toString db_down)]\<rparr>\<rparr> \<and>
   createTransaction (counting_service db_down) body_request (incoming sample_heap 1) =
     Inr \<lparr>heap = set_txn_date 1 (JDate (JStr ''2014-03-01'')) sample_heap, svc_state = 0,
          calls = [(CreateTransaction 1, set_txn_date 1 (JDate (JStr ''2014-03-01'')) sample_heap, Inr (JObj [(''id'', JNum 7), (''txn_date'', JDate (JStr ''2014-03-01''))])),
                   (GetTransaction (JNum 7), set_txn_date 1 (JDate (JStr ''2014-03-01'')) sample_heap, Inl db_down)],
          logged = [db_down],
          res = \<lparr>statusCode = 500, sent = [Message (toString db_down)]\<rparr>\<rparr> \<and>
   updateTransaction (counting_service db_down) body_request (incoming sample_heap 0) =
     Inr \<lparr>heap = set_txn_date 1 (JDate (JStr ''2014-03-01'')) sample_heap, svc_state = 0,
          calls = [(UpdateTransaction 1, set_txn_date 1 (JDate (JStr ''2014-03-01'')) sample_heap, Inl db_down)],
          logged = [db_down],
          res = \<lparr>statusCode = 500, sent = [Message (toString db_down)]\<rparr>\<rparr> \<and>
   updateTransaction (counting_service db_down) body_request (incoming sample_heap 1) =
     Inr \<lparr>heap = set_txn_date 1 (JDate (JStr ''2014-03-01'')) sample_heap, svc_state = 0,
          calls = [(UpdateTransaction 1, set_txn_date 1 (JDate (JStr ''2014-03-01'')) sample_heap, Inr (JObj [(''id'', JNum 9), (''txn_date'', JDate (JStr ''2014-03-01''))])),
                   (GetTransaction (JNum 9), set_txn_date 1 (JDate (JStr ''2014-03-01'')) sample_heap, Inl db_down)],
          logged = [db_down],
          res = \<lparr>statusCode = 500, sent = [Message (toString db_down)]\<rparr>\<rparr> \<and>
   getTransactions (counting_service db_down) grouped_request (incoming sample_heap 0) =
     Inr \<lparr>heap = sample_heap, svc_state = 0,
          calls = [(GetTransactionsByCategory (JDate (JStr ''2014-01-01'')) (JDate (JStr ''2014-12-31'')), sample_heap, Inl db_down)],
          logged = [db_down],
          res = \<lparr>statusCode = 500, sent = [Message (toString db_down)]\<rparr>\<rparr> \<and>
   getTransactions (counting_service db_down) account_request (incoming sample_heap 0) =
     Inr \<lparr>heap = sample_heap, svc_state = 0,
          calls = [(GetTransactions (JStr ''3''), sample_heap, Inl db_down)],
          logged = [db_down],
          res = \<lparr>statusCode = 500, sent = [Message (toString db_down)]\<rparr>\<rparr> \<and>
   deleteTransaction (counting_service db_down) id_request (incoming sample_heap 0) =
     Inr \<lparr>heap = sample_heap, svc_state = 0,
          calls = [(DeleteTransaction (JStr ''42''), sample_heap, Inl db_down)],
          logged = [db_down],
          res = \<lparr>statusCode = 500, sent = [Message (toString db_down)]\<rparr>\<rparr> \<and>
   getTransaction (counting_service not_found) id_request (incoming sample_heap 0) =
     Inr \<lparr>heap = sample_heap, svc_state = 0,
          calls = [(GetTransaction (JStr ''42''), sample_heap, Inl not_found)],
          logged = [],
          res = \<lparr>statusCode = 404, sent = [Message ''Transaction 42 does not exist'']\<rparr>\<rparr> \<and>
   getTransaction (counting_service db_down) id_request (incoming sample_heap 0) =
     Inr \<lparr>heap = sample_heap, svc_state = 0,
          calls = [(GetTransaction (JStr ''42''), sample_heap, Inl db_down)],
          logged = [db_down],
          res = \<lparr>statusCode = 500, sent = [Message (toString db_down)]\<rparr>\<rparr>"
  using
    service_errors_end_in_the_handler
      [where svc = "counting_service db_down"
         and req = "body_request"
         and a = "1"
         and h = "sample_heap"
         and s = "0"
         and e = "db_down"
         and h' = "set_txn_date 1 (JDate (JStr ''2014-03-01'')) sample_heap"
         and s' = "0", THEN conjunct1]
    service_errors_end_in_the_handler
      [where svc = "counting_service db_down"
         and req = "body_request"
         and a = "1"
         and h = "sample_heap"
         and s = "1"
         and t = "JObj [(''id'', JNum 7), (''txn_date'', JDate (JStr ''2014-03-01''))]"
         and i = "JNum 7"
         and e = "db_down"
         and h' = "set_txn_date 1 (JDate (JStr ''2014-03-01'')) sample_heap"
         and s' = "0"
         and h'' = "set_txn_date 1 (JDate (JStr ''2014-03-01'')) sample_heap"
         and s'' = "0", THEN conjunct2, THEN conjunct1]
    service_errors_end_in_the_handler
      [where svc = "counting_service db_down"
         and req = "body_request"
         and a = "1"
         and h = "sample_heap"
         and s = "0"
         and e = "db_down"
         and h' = "set_txn_date 1 (JDate (JStr ''2014-03-01'')) sample_heap"
         and s' = "0", THEN conjunct2, THEN conjunct2, THEN conjunct1]
    service_errors_end_in_the_handler
      [where svc = "counting_service db_down"
         and req = "body_request"
         and a = "1"
         and h = "sample_heap"
         and s = "1"
         and t = "JObj [(''id'', JNum 9), (''txn_date'', JDate (JStr ''2014-03-01''))]"
         and i = "JNum 9"
         and e = "db_down"
         and h' = "set_txn_date 1 (JDate (JStr ''2014-03-01'')) sample_heap"
         and s' = "0"
         and h'' = "set_txn_date 1 (JDate (JStr ''2014-03-01'')) sample_heap"
         and s'' = "0", THEN conjunct2, THEN conjunct2, THEN conjunct2, THEN conjunct1]
    service_errors_end_in_the_handler
      [where svc = "counting_service db_down"
         and req = "grouped_request"
         and h = "sample_heap"
         and s = "0"
         and startDate = "JDate (JStr ''2014-01-01'')"
         and endDate = "JDate (JStr ''2014-12-31'')"
         and e = "db_down"
         and h' = "sample_heap"
         and s' = "0", THEN conjunct2, THEN conjunct2, THEN conjunct2, THEN conjunct2, THEN conjunct1]
    service_errors_end_in_the_handler
      [where svc = "counting_service db_down"
         and req = "account_request"
         and h = "sample_heap"
         and s = "0"
         and startDate = "JUndefined"
         and endDate = "JUndefined"
         and e = "db_down"
         and h' = "sample_heap"
         and s' = "0", THEN conjunct2, THEN conjunct2, THEN conjunct2, THEN conjunct2, THEN conjunct2, THEN conjunct1]
    service_errors_end_in_the_handler
      [where svc = "counting_service db_down"
         and req = "id_request"
         and h = "sample_heap"
         and s = "0"
         and e = "db_down"
         and h' = "sample_heap"
         and s' = "0", THEN conjunct2, THEN conjunct2, THEN conjunct2, THEN conjunct2, THEN conjunct2, THEN conjunct2, THEN conjunct1]
    service_errors_end_in_the_handler
      [where svc = "counting_service not_found"
         and req = "id_request"
         and h = "sample_heap"
         and s = "0"
         and e = "not_found"
         and h' = "sample_heap"
         and s' = "0", THEN conjunct2, THEN conjunct2, THEN conjunct2, THEN conjunct2, THEN conjunct2, THEN conjunct2, THEN conjunct2, THEN conjunct1]
    service_errors_end_in_the_handler
      [where svc = "counting_service db_down"
         and req = "id_request"
         and h = "sample_heap"
         and s = "0"
         and e = "db_down"
         and h' = "sample_heap"
         and s' = "0", THEN conjunct2, THEN conjunct2, THEN conjunct2, THEN conjunct2, THEN conjunct2, THEN conjunct2, THEN conjunct2, THEN conjunct2]
  by (simp add: createTransaction_def updateTransaction_def coerce_txn_date_def new_Date_def
      set_txn_date_def stored_row_def full_row_def sample_heap_def body_request_def
      getTransactions_def coerce_if_truthy_def deleteTransaction_def getTransaction_def
      run_defs counting_service_def settle_def no_props_def no_params_def
      grouped_request_def account_request_def id_request_def not_found_def db_down_def)

text \<open>
  The message is not the error's text on every path: \<^verbatim>\<open>GET /transactions/42\<close> on a
  service that rejects with a NotFoundError whose \<^verbatim>\<open>toString()\<close> is
  \<^verbatim>\<open>NotFoundError: no such transaction\<close> answers \<^verbatim>\<open>Transaction 42 does not exist\<close>.
\<close>

theorem message_is_not_always_the_error_text:
  "svc_getTransaction (counting_service not_found) (JStr ''42'') (sample_heap, 0) =
     (Inl not_found, sample_heap, 0) \<and>
   getTransaction (counting_service not_found) id_request (incoming sample_heap 0) =
     Inr \<lparr>heap = sample_heap, svc_state = 0,
          calls = [(GetTransaction (JStr ''42''), sample_heap, Inl not_found)],
          logged = [],
          res = \<lparr>statusCode = 404, sent = [Message ''Transaction 42 does not exist'']\<rparr>\<rparr> \<and>
   toString not_found = ''NotFoundError: no such transaction'' \<and>
   Message ''Transaction 42 does not exist'' \<noteq> Message (toString not_found)"
  by (simp add: getTransaction_def run_defs counting_service_def settle_def id_request_def
      no_params_def not_found_def)

subsection \<open>What is done to the request's data\<close>




text \<open>
  C10. With a \<^verbatim>\<open>txn_date\<close> that converts, create and update apply the service to the
  very object that is \<^verbatim>\<open>req.body\<close>, its address, in the heap where that object's
  \<^verbatim>\<open>txn_date\<close> has been replaced by \<^verbatim>\<open>new Date\<close> of its old value, and go on from the
  heap the service leaves. The assignment changes that one property: the object's other
  properties and all other objects are as they were.
\<close>

theorem txn_date_overwritten_in_place:
  "(body req = Some a \<and>
    to_primitive_ok (h a ''txn_date'') \<and>
    svc_createTransaction svc a (set_txn_date a (JDate (h a ''txn_date'')) h, s) = (Inl e, h', s') \<longrightarrow>
      createTransaction svc req (incoming h s) =
        Inr \<lparr>heap = h', svc_state = s',
            calls = [(CreateTransaction a, set_txn_date a (JDate (h a ''txn_date'')) h, Inl e)],
            logged = [e],
            res = \<lparr>statusCode = 500, sent = [Message (toString e)]\<rparr>\<rparr>) \<and>
   (body req = Some a \<and>
    to_primitive_ok (h a ''txn_date'') \<and>
    svc_createTransaction svc a (set_txn_date a (JDate (h a ''txn_date'')) h, s) = (Inr t, h', s') \<and>
    get_prop t ''id'' = Inr i \<and>
    svc_getTransaction svc i (h', s') = (Inr full, h'', s'') \<longrightarrow>
      createTransaction svc req (incoming h s) =
        Inr \<lparr>heap = h'', svc_state = s'',
            calls = [(CreateTransaction a, set_txn_date a (JDate (h a ''txn_date'')) h, Inr t),
                     (GetTransaction i, h', Inr full)],
            logged = [],
            res = \<lparr>statusCode = 200, sent = [Body full]\<rparr>\<rparr>) \<and>
   (body req = Some a \<and>
    to_primitive_ok (h a ''txn_date'') \<and>
    svc_updateTransaction svc a (set_txn_date a (JDate (h a ''txn_date'')) h, s) = (Inl e, h', s') \<longrightarrow>
      updateTransaction svc req (incoming h s) =
        Inr \<lparr>heap = h', svc_state = s',
            calls = [(UpdateTransaction a, set_txn_date a (JDate (h a ''txn_date'')) h, Inl e)],
            logged = [e],
            res = \<lparr>statusCode = 500, sent = [Message (toString e)]\<rparr>\<rparr>) \<and>
   (body req = Some a \<and>
    to_primitive_ok (h a ''txn_date'') \<and>
    svc_updateTransaction svc a (set_txn_date a (JDate (h a ''txn_date'')) h, s) = (Inr t, h', s') \<and>
    get_prop t ''id'' = Inr i \<and>
    svc_getTransaction svc i (h', s') = (Inr full, h'', s'') \<longrightarrow>
      updateTransaction svc req (incoming h s) =
        Inr \<lparr>heap = h'', svc_state = s'',
            calls = [(UpdateTransaction a, set_txn_date a (JDate (h a ''txn_date'')) h, Inr t),
                     (GetTransaction i, h', Inr full)],
            logged = [],
            res = \<lparr>statusCode = 200, sent = [Body full]\<rparr>\<rparr>) \<and>
   set_txn_date a d h a ''txn_date'' = d \<and>
   (\<forall>k. k \<noteq> ''txn_date'' \<longrightarrow> set_txn_date a d h a k = h a k) \<and>
   (\<forall>b. b \<noteq> a \<longrightarrow> set_txn_date a d h b = h b)"
  apply (intro conjI impI)
  subgoal by ((elim conjE)?; rule createTransaction_rejected; assumption)
  subgoal by ((elim conjE)?; rule createTransaction_refetched; assumption)
  subgoal by ((elim conjE)?; rule updateTransaction_rejected; assumption)
  subgoal by ((elim conjE)?; rule updateTransaction_refetched; assumption)
  subgoal by (simp add: set_txn_date_def)
  subgoal by (simp add: set_txn_date_def)
  subgoal by (simp add: set_txn_date_def)
  done

theorem txn_date_overwritten_in_place_witness:
  "body body_request = Some 1 \<and>
   to_primitive_ok (sample_heap 1 ''txn_date'') \<and>
   createTransaction (counting_service not_found) body_request (incoming sample_heap 0) =
     Inr \<lparr>heap = set_txn_date 1 (JDate (JStr ''2014-03-01'')) sample_heap, svc_state = 0,
          calls = [(CreateTransaction 1, set_txn_date 1 (JDate (JStr ''2014-03-01'')) sample_heap, Inl not_found)],
          logged = [not_found],
          res = \<lparr>statusCode = 500, sent = [Message (toString not_found)]\<rparr>\<rparr> \<and>
   createTransaction (counting_service not_found) body_request (incoming sample_heap 2) =
     Inr \<lparr>heap = set_txn_date 1 (JDate (JStr ''2014-03-01'')) sample_heap, svc_state = 0,
          calls = [(CreateTransaction 1, set_txn_date 1 (JDate (JStr ''2014-03-01'')) sample_heap, Inr (JObj [(''id'', JNum 7), (''txn_date'', JDate (JStr ''2014-03-01''))])),
                   (GetTransaction (JNum 7), set_txn_date 1 (JDate (JStr ''2014-03-01'')) sample_heap, Inr (full_row (JNum 7)))],
          logged = [],
          res = \<lparr>statusCode = 200, sent = [Body (full_row (JNum 7))]\<rparr>\<rparr> \<and>
   updateTransaction (counting_service not_found) body_request (incoming sample_heap 0) =
     Inr \<lparr>heap = set_txn_date 1 (JDate (JStr ''2014-03-01'')) sample_heap, svc_state = 0,
          calls = [(UpdateTransaction 1, set_txn_date 1 (JDate (JStr ''2014-03-01'')) sample_heap, Inl not_found)],
          logged = [not_found],
          res = \<lparr>statusCode = 500, sent = [Message (toString not_found)]\<rparr>\<rparr> \<and>
   updateTransaction (counting_service not_found) body_request (incoming sample_heap 2) =
     Inr \<lparr>heap = set_txn_date 1 (JDate (JStr ''2014-03-01'')) sample_heap, svc_state = 0,
          calls = [(UpdateTransaction 1, set_txn_date 1 (JDate (JStr ''2014-03-01'')) sample_heap, Inr (JObj [(''id'', JNum 9), (''txn_date'', JDate (JStr ''2014-03-01''))])),
                   (GetTransaction (JNum 9), set_txn_date 1 (JDate (JStr ''2014-03-01'')) sample_heap, Inr (full_row (JNum 9)))],
          logged = [],
          res = \<lparr>statusCode = 200, sent = [Body (full_row (JNum 9))]\<rparr>\<rparr> \<and>
   sample_heap 1 ''txn_date'' = JStr ''2014-03-01'' \<and>
   (set_txn_date 1 (JDate (JStr ''2014-03-01'')) sample_heap) 1 ''txn_date'' = JDate (JStr ''2014-03-01'') \<and>
   (set_txn_date 1 (JDate (JStr ''2014-03-01'')) sample_heap) 1 ''amount'' = JNum 12.5 \<and>
   (set_txn_date 1 (JDate (JStr ''2014-03-01'')) sample_heap) 1 ''id'' = JNum 9 \<and>
   (set_txn_date 1 (JDate (JStr ''2014-03-01'')) sample_heap) 2 ''txn_date'' = JUndefined"
  using
    txn_date_overwritten_in_place
      [where svc = "counting_service not_found"
         and req = "body_request"
         and a = "1"
         and h = "sample_heap"
         and s = "0"
         and e = "not_found"
         and h' = "set_txn_date 1 (JDate (JStr ''2014-03-01'')) sample_heap"
         and s' = "0", THEN conjunct1]
    txn_date_overwritten_in_place
      [where svc = "counting_service not_found"
         and req = "body_request"
         and a = "1"
         and h = "sample_heap"
         and s = "2"
         and t = "JObj [(''id'', JNum 7), (''txn_date'', JDate (JStr ''2014-03-01''))]"
         and i = "JNum 7"
         and full = "full_row (JNum 7)"
         and h' = "set_txn_date 1 (JDate (JStr ''2014-03-01'')) sample_heap"
         and s' = "1"
         and h'' = "set_txn_date 1 (JDate (JStr ''2014-03-01'')) sample_heap"
         and s'' = "0", THEN conjunct2, THEN conjunct1]
    txn_date_overwritten_in_place
      [where svc = "counting_service not_found"
         and req = "body_request"
         and a = "1"
         and h = "sample_heap"
         and s = "0"
         and e = "not_found"
         and h' = "set_txn_date 1 (JDate (JStr ''2014-03-01'')) sample_heap"
         and s' = "0", THEN conjunct2, THEN conjunct2, THEN conjunct1]
    txn_date_overwritten_in_place
      [where svc = "counting_service not_found"
         and req = "body_request"
         and a = "1"
         and h = "sample_heap"
         and s = "2"
         and t = "JObj [(''id'', JNum 9), (''txn_date'', JDate (JStr ''2014-03-01''))]"
         and i = "JNum 9"
         and full = "full_row (JNum 9)"
         and h' = "set_txn_date 1 (JDate (JStr ''2014-03-01'')) sample_heap"
         and s' = "1"
         and h'' = "set_txn_date 1 (JDate (JStr ''2014-03-01'')) sample_heap"
         and s'' = "0", THEN conjunct2, THEN conjunct2, THEN conjunct2, THEN conjunct1]
    txn_date_overwritten_in_place
      [where a = "1"
         and d = "JDate (JStr ''2014-03-01'')"
         and h = "sample_heap", THEN conjunct2, THEN conjunct2, THEN conjunct2, THEN conjunct2, THEN conjunct1]
    txn_date_overwritten_in_place
      [where a = "1"
         and d = "JDate (JStr ''2014-03-01'')"
         and h = "sample_heap", THEN conjunct2, THEN conjunct2, THEN conjunct2, THEN conjunct2, THEN conjunct2, THEN conjunct1]
    txn_date_overwritten_in_place
      [where a = "1"
         and d = "JDate (JStr ''2014-03-01'')"
         and h = "sample_heap", THEN conjunct2, THEN conjunct2, THEN conjunct2, THEN conjunct2, THEN conjunct2, THEN conjunct2]
  by (simp add: createTransaction_def updateTransaction_def coerce_txn_date_def new_Date_def
      set_txn_date_def stored_row_def full_row_def sample_heap_def body_request_def
      run_defs counting_service_def settle_def no_props_def no_params_def not_found_def)

end
